theory Spec2Isabelle
  imports Complex_Main "HOL-Library.AList"
begin

section \<open>METER telemetry: the platform the program runs on\<close>

text \<open>
  The program of \<^verbatim>\<open>code.py\<close> runs on a CircuitPython board. Everything it does is an
  interaction with the platform: it reads a clock, two input pins and two sensor drivers,
  prints to the console and to a UART, opens, writes and removes files on the card, and
  polls the HTTP server. The model keeps these interactions explicit:

  \<^item> the platform's answers are an \<^emph>\<open>environment\<close>: for every kind of request a function
    from the number of requests made so far to the answer, so that each single call
    can succeed or fail on its own;
  \<^item> the \<^emph>\<open>world\<close> is the environment, the request counter, the files on the card, and the
    trace of everything the program has emitted or attempted;
  \<^item> a Python exception is a value of \<open>exn\<close>; a function that can raise returns a
    \<open>result\<close>, which keeps the world as it was when the exception was raised.

  \<open>exn\<close> stands for the instances of Python's class \<^verbatim>\<open>Exception\<close>, each with the text
  that \<^verbatim>\<open>str(e)\<close> gives. \<^verbatim>\<open>IOError\<close> is Python's alias of \<^verbatim>\<open>OSError\<close>, and
  \<^verbatim>\<open>FileNotFoundError\<close> is a subclass of it.
\<close>

datatype exn =
    FileNotFoundError string
  | OSError string
  | RuntimeError string
  | ValueError string
  | NotImplementedError string
  | OtherException string

fun str_exn :: "exn \<Rightarrow> string" where
  "str_exn (FileNotFoundError m) = m"
| "str_exn (OSError m) = m"
| "str_exn (RuntimeError m) = m"
| "str_exn (ValueError m) = m"
| "str_exn (NotImplementedError m) = m"
| "str_exn (OtherException m) = m"

text \<open>
  What the program emits or attempts, in order. \<open>EvOpen\<close> is the call
  \<^verbatim>\<open>open(path, "a")\<close>, \<open>EvWrite\<close> the call \<^verbatim>\<open>file.write(data)\<close>, \<open>EvClose\<close> the close at
  the end of a \<^verbatim>\<open>with\<close> block, \<open>EvRemove\<close> the call \<^verbatim>\<open>os.remove(path)\<close>; each is
  recorded when it is attempted, whether or not it then fails.
\<close>

datatype event =
    EvPrint string
  | EvUart string
  | EvOpen string
  | EvWrite string string
  | EvClose string
  | EvRemove string
  | EvPoll

text \<open>
  A value of a sensor field is a Python \<^verbatim>\<open>int\<close> (the zeros of the fallback mapping) or a
  float. The floats are the platform's: \<open>'f\<close> is their type, and the environment's
  \<open>float_str\<close> is what \<^verbatim>\<open>str\<close> (and so an f-string) makes of one.
\<close>

datatype 'f pynum = PyInt int | PyFloat 'f

record 'f env =
  monotonic_ms :: "nat \<Rightarrow> int"
  cd_pin :: "nat \<Rightarrow> bool"
  del_pin :: "nat \<Rightarrow> bool"
  acceleration :: "nat \<Rightarrow> exn + 'f list option"
  pressure :: "nat \<Rightarrow> exn + 'f"
  temperature :: "nat \<Rightarrow> exn + 'f"
  open_fault :: "nat \<Rightarrow> string \<Rightarrow> exn option"
  write_fault :: "nat \<Rightarrow> string \<Rightarrow> exn option"
  remove_fault :: "nat \<Rightarrow> string \<Rightarrow> exn option"
  poll_fault :: "nat \<Rightarrow> exn option"
  uart_present :: bool
  float_str :: "'f \<Rightarrow> string"

text \<open>
  \<open>monotonic_ms\<close> is \<^verbatim>\<open>int(time.monotonic() * 1_000)\<close>; \<open>cd_pin\<close> and \<open>del_pin\<close> are
  \<^verbatim>\<open>MICROSD_CD_PIN.value\<close> and \<^verbatim>\<open>MICROSD_DEL_PIN.value\<close>; \<open>acceleration\<close> is the property
  of the BNO08x driver (an exception, \<^verbatim>\<open>None\<close>, or a tuple), \<open>pressure\<close> and
  \<open>temperature\<close> those of the DPS310 driver; the three fault functions say whether the
  file operation fails for a reason of the platform's; \<open>poll_fault\<close> is the outcome of
  \<^verbatim>\<open>server.poll()\<close>; \<open>uart_present\<close> says whether the global \<^verbatim>\<open>UART\<close> was initialised.
\<close>

record 'f world =
  env :: "'f env"
  ops :: nat
  files :: "string \<rightharpoonup> string"
  trace :: "event list"

datatype ('a, 'f) result = Raise exn "'f world" | Return 'a "'f world"

fun world_of :: "('a, 'f) result \<Rightarrow> 'f world" where
  "world_of (Raise e w) = w"
| "world_of (Return x w) = w"

fun returns :: "('a, 'f) result \<Rightarrow> bool" where
  "returns (Raise e w) = False"
| "returns (Return x w) = True"

fun raised :: "('a, 'f) result \<Rightarrow> exn option" where
  "raised (Raise e w) = Some e"
| "raised (Return x w) = None"

definition step :: "'f world \<Rightarrow> 'f world" where
  "step w = w\<lparr>ops := Suc (ops w)\<rparr>"

definition emit :: "event \<Rightarrow> 'f world \<Rightarrow> 'f world" where
  "emit ev w = w\<lparr>trace := trace w @ [ev]\<rparr>"

subsection \<open>Built-ins\<close>

definition CRLF :: string where
  "CRLF = [CHR 0x0D, CHR 0x0A]"

definition digit_char :: "nat \<Rightarrow> char" where
  "digit_char d = ''0123456789'' ! d"

fun str_nat :: "nat \<Rightarrow> string" where
  "str_nat n = (if n < 10 then [digit_char n] else str_nat (n div 10) @ [digit_char (n mod 10)])"

declare str_nat.simps [simp del]

definition str_int :: "int \<Rightarrow> string" where
  "str_int i = (if i < 0 then ''-'' @ str_nat (nat (- i)) else str_nat (nat i))"

fun str_value :: "'f env \<Rightarrow> 'f pynum \<Rightarrow> string" where
  "str_value E (PyInt i) = str_int i"
| "str_value E (PyFloat x) = float_str E x"

fun join :: "string \<Rightarrow> string list \<Rightarrow> string" where
  "join sep [] = []"
| "join sep [s] = s"
| "join sep (s # t # ss) = s @ sep @ join sep (t # ss)"

definition time_monotonic_ms :: "'f world \<Rightarrow> int \<times> 'f world" where
  "time_monotonic_ms w = (monotonic_ms (env w) (ops w), step w)"

definition py_print :: "string \<Rightarrow> 'f world \<Rightarrow> 'f world" where
  "py_print s w = emit (EvPrint s) w"

definition uart_write :: "string \<Rightarrow> 'f world \<Rightarrow> 'f world" where
  "uart_write s w = emit (EvUart s) w"

text \<open>
  \<^verbatim>\<open>open(path, "a")\<close> creates the file when it is not there. \<^verbatim>\<open>os.remove\<close> raises
  \<^verbatim>\<open>FileNotFoundError\<close> on a file that is not there.
\<close>

definition open_append :: "string \<Rightarrow> 'f world \<Rightarrow> (unit, 'f) result" where
  "open_append path w =
     (let w1 = step (emit (EvOpen path) w) in
      case open_fault (env w) (ops w) path of
        Some e \<Rightarrow> Raise e w1
      | None \<Rightarrow>
          Return () (case files w path of
                       None \<Rightarrow> w1\<lparr>files := (files w)(path \<mapsto> [])\<rparr>
                     | Some c \<Rightarrow> w1))"

definition file_write :: "string \<Rightarrow> string \<Rightarrow> 'f world \<Rightarrow> (unit, 'f) result" where
  "file_write path data w =
     (let w1 = step (emit (EvWrite path data) w) in
      case write_fault (env w) (ops w) path of
        Some e \<Rightarrow> Raise e w1
      | None \<Rightarrow>
          Return () (w1\<lparr>files := (files w)(path \<mapsto>
             (case files w path of None \<Rightarrow> [] | Some c \<Rightarrow> c) @ data)\<rparr>))"

definition file_close :: "string \<Rightarrow> 'f world \<Rightarrow> 'f world" where
  "file_close path w = emit (EvClose path) w"

definition os_remove :: "string \<Rightarrow> 'f world \<Rightarrow> (unit, 'f) result" where
  "os_remove path w =
     (let w1 = step (emit (EvRemove path) w) in
      case remove_fault (env w) (ops w) path of
        Some e \<Rightarrow> Raise e w1
      | None \<Rightarrow>
          (case files w path of
             None \<Rightarrow> Raise (FileNotFoundError ''[Errno 2] No such file/directory'') w1
           | Some c \<Rightarrow> Return () (w1\<lparr>files := (files w)(path := None)\<rparr>)))"

section \<open>The program\<close>

subsection \<open>Configuration\<close>

definition SD_ROOT :: string where "SD_ROOT = ''/sd''"
definition DATA_FILE :: string where "DATA_FILE = ''data.txt''"
definition LOG_FILE :: string where "LOG_FILE = ''run.log''"
definition ERR_FILE :: string where "ERR_FILE = ''error.log''"

definition DATAPATH :: string where "DATAPATH = SD_ROOT @ ''/'' @ DATA_FILE"
definition LOGPATH :: string where "LOGPATH = SD_ROOT @ ''/'' @ LOG_FILE"
definition ERRPATH :: string where "ERRPATH = SD_ROOT @ ''/'' @ ERR_FILE"

subsection \<open>LogLevel and log\<close>

definition DEBUG :: int where "DEBUG = 0"
definition INFO :: int where "INFO = 1"
definition WARN :: int where "WARN = 2"
definition ERROR :: int where "ERROR = 3"

text \<open>
  The \<^verbatim>\<open>try\<close> block of \<^verbatim>\<open>log\<close> with its three handlers. The \<^verbatim>\<open>with\<close> statement closes
  the file when its body raises. \<^verbatim>\<open>print(a, b)\<close> puts a space between its arguments.
\<close>

definition log_except :: "string \<Rightarrow> exn \<Rightarrow> 'f world \<Rightarrow> 'f world" where
  "log_except logfile_path e w =
     (case e of
        FileNotFoundError m \<Rightarrow>
          py_print (''Could not open file '' @ logfile_path @ '': File not found.'') w
      | OSError m \<Rightarrow>
          py_print (''Could not write to '' @ logfile_path @ '': '' @ '' '' @ str_exn e) w
      | _ \<Rightarrow>
          py_print (''Writing to '' @ logfile_path @ '' failed: '' @ '' '' @ str_exn e) w)"

definition log_try :: "string \<Rightarrow> string \<Rightarrow> 'f world \<Rightarrow> 'f world" where
  "log_try logfile_path str_message w =
     (case open_append logfile_path w of
        Raise e w1 \<Rightarrow> log_except logfile_path e w1
      | Return u w1 \<Rightarrow>
          (case file_write logfile_path (str_message @ CRLF) w1 of
             Raise e w2 \<Rightarrow> log_except logfile_path e (file_close logfile_path w2)
           | Return u w2 \<Rightarrow> file_close logfile_path w2))"

definition log_format :: "string \<Rightarrow> int \<Rightarrow> string \<Rightarrow> string" where
  "log_format level_name timestamp str_message =
     ''['' @ level_name @ ''] - ['' @ str_int timestamp @ '']: '' @ str_message"

text \<open>
  What \<^verbatim>\<open>log\<close> does with the message once it is formatted: console, UART when there is
  one, and, unless the level is \<^verbatim>\<open>DEBUG\<close>, the log file of the level.
\<close>

definition log_sinks :: "int \<Rightarrow> string \<Rightarrow> 'f world \<Rightarrow> 'f world" where
  "log_sinks level str_message w1 =
     (let w2 = py_print str_message w1;
          w3 = (if uart_present (env w2) then uart_write (str_message @ CRLF) w2 else w2)
      in if level = DEBUG then w3
         else log_try (if level = ERROR then ERRPATH else LOGPATH) str_message w3)"

function log :: "int \<Rightarrow> string list \<Rightarrow> 'f world \<Rightarrow> 'f world"
  and LogLevel_get_name :: "int \<Rightarrow> 'f world \<Rightarrow> string \<times> 'f world" where
  "log level message w =
     (case (if message \<noteq> [] then
              (case time_monotonic_ms w of (timestamp, wa) \<Rightarrow>
                (case LogLevel_get_name level wa of (level_name, wb) \<Rightarrow>
                   (log_format level_name timestamp (concat message), wb)))
            else ([], w)) of
        (str_message, w1) \<Rightarrow> log_sinks level str_message w1)"
| "LogLevel_get_name level w =
     (if level = DEBUG then (''DEBUG'', w)
      else if level = ERROR then (''ERROR'', w)
      else if level = WARN then (''WARN'', w)
      else if level = INFO then (''INFO'', w)
      else (''UNKNOWN'', log WARN [''Log level '' @ str_int level @ '' is unknown.''] w))"
  by pat_completeness auto
termination
  by (relation "measure (\<lambda>x. case x of
         Inl (level, message, w) \<Rightarrow> (if level \<in> {DEBUG, INFO, WARN, ERROR} then 1 else 3)
       | Inr (level, w) \<Rightarrow> (if level \<in> {DEBUG, INFO, WARN, ERROR} then 0 else 2))")
     (auto simp: DEBUG_def INFO_def WARN_def ERROR_def)

declare log.simps [simp del] LogLevel_get_name.simps [simp del]

subsection \<open>SensorType\<close>

definition BNO08X :: int where "BNO08X = 0"
definition DPS310 :: int where "DPS310 = 1"

definition SensorType_get_name :: "int \<Rightarrow> 'f world \<Rightarrow> string \<times> 'f world" where
  "SensorType_get_name sensor_type w =
     (if sensor_type = BNO08X then (''bno08x'', w)
      else if sensor_type = DPS310 then (''dps310'', w)
      else (''unknown'',
            log ERROR [''Sensor type '' @ str_int sensor_type @ '' is unknown.''] w))"

subsection \<open>The sensor classes\<close>

text \<open>
  A sensor data object is used through its method \<^verbatim>\<open>get_data\<close> only, so the model
  identifies the object with that method: a function from the world to the mapping it
  returns (in insertion order, as a Python \<^verbatim>\<open>dict\<close> keeps it) or to the exception it
  raises. The driver object a class wraps is the environment's.
\<close>

type_synonym 'f field_data = "(string \<times> 'f pynum) list"
type_synonym 'f sensor_base = "'f world \<Rightarrow> ('f field_data, 'f) result"

definition SensorBase_get_data :: "'f sensor_base" where
  "SensorBase_get_data w =
     Raise (NotImplementedError ''Abstract function has to be implemented.'') w"

text \<open>
  \<^verbatim>\<open>if acceleration:\<close> holds for a tuple that is not empty; \<^verbatim>\<open>None\<close> and the empty
  tuple are false. Unpacking into three names raises \<^verbatim>\<open>ValueError\<close> on a tuple of another
  length.
\<close>

fun truthy :: "'f list option \<Rightarrow> bool" where
  "truthy None = False"
| "truthy (Some xs) = (xs \<noteq> [])"

definition Bno08xData_get_data :: "'f sensor_base" where
  "Bno08xData_get_data w =
     (let data_dict = [(''accel_x'', PyInt 0), (''accel_y'', PyInt 0), (''accel_z'', PyInt 0)] in
      case acceleration (env w) (ops w) of
        Inl e \<Rightarrow> Raise e (step w)
      | Inr acc \<Rightarrow>
          (let w1 = step w in
           if truthy acc then
             (case acc of
                Some [accel_x, accel_y, accel_z] \<Rightarrow>
                  Return (AList.update ''accel_z'' (PyFloat accel_z)
                           (AList.update ''accel_y'' (PyFloat accel_y)
                             (AList.update ''accel_x'' (PyFloat accel_x) data_dict))) w1
              | _ \<Rightarrow> Raise (ValueError ''wrong number of values to unpack'') w1)
           else
             Return data_dict
               (log ERROR [''Could not get acceleration data from bno08x.''] w1)))"

definition DPS310Data_get_data :: "'f sensor_base" where
  "DPS310Data_get_data w =
     (case pressure (env w) (ops w) of
        Inl e \<Rightarrow> Raise e (step w)
      | Inr p \<Rightarrow>
          (let w1 = step w in
           case temperature (env w1) (ops w1) of
             Inl e \<Rightarrow> Raise e (step w1)
           | Inr t \<Rightarrow> Return [(''pressure'', PyFloat p), (''temp'', PyFloat t)] (step w1)))"

subsection \<open>SensorData\<close>

record 'f sensor_data =
  sensor_type :: int
  data :: "'f sensor_base"
  timestamp :: int

definition to_influx_line :: "'f sensor_data \<Rightarrow> 'f world \<Rightarrow> (string, 'f) result" where
  "to_influx_line self w =
     (case SensorType_get_name (sensor_type self) w of (measurement, w1) \<Rightarrow>
        (case data self w1 of
           Raise e w2 \<Rightarrow> Raise e w2
         | Return field_data w2 \<Rightarrow>
             (let field_substrings =
                    map (\<lambda>(key, val). key @ ''='' @ str_value (env w2) val) field_data;
                  fields = join '','' field_substrings
              in Return (measurement @ '' '' @ fields @ '' '' @ str_int (timestamp self)) w2)))"

subsection \<open>Writing the data file\<close>

text \<open>
  \<^verbatim>\<open>data2datafile\<close> encodes the reading, and when the line is true (not empty) opens the
  data file; inside the \<^verbatim>\<open>with\<close> block it encodes the reading a second time for the
  debug message, then writes the first line. Nothing in it catches an exception; the
  \<^verbatim>\<open>with\<close> statement closes the file on the way out.
\<close>

definition data2datafile :: "'f sensor_data \<Rightarrow> 'f world \<Rightarrow> (unit, 'f) result" where
  "data2datafile sensor_data w =
     (case to_influx_line sensor_data w of
        Raise e w1 \<Rightarrow> Raise e w1
      | Return influx_line w1 \<Rightarrow>
          if influx_line \<noteq> [] then
            (case open_append DATAPATH w1 of
               Raise e w2 \<Rightarrow> Raise e w2
             | Return u w2 \<Rightarrow>
                 (case to_influx_line sensor_data w2 of
                    Raise e w3 \<Rightarrow> Raise e (file_close DATAPATH w3)
                  | Return line2 w3 \<Rightarrow>
                      (let w4 = log DEBUG
                                  [''Appending '' @ [CHR 0x27] @ line2 @ [CHR 0x27] @ '' to '' @ DATAPATH] w3
                       in case file_write DATAPATH (influx_line @ CRLF) w4 of
                            Raise e w5 \<Rightarrow> Raise e (file_close DATAPATH w5)
                          | Return u w5 \<Rightarrow> Return () (file_close DATAPATH w5))))
          else Return () w1)"

subsection \<open>The handlers of a tick\<close>

fun delete_loop :: "string list \<Rightarrow> 'f world \<Rightarrow> (unit, 'f) result" where
  "delete_loop [] w = Return () w"
| "delete_loop (path # rest) w =
     (let w1 = log DEBUG [''Removing file '' @ path @ ''.''] w in
      case os_remove path w1 of
        Raise e w2 \<Rightarrow>
          (case e of
             FileNotFoundError m \<Rightarrow>
               delete_loop rest (log WARN [''File '' @ path @ '' does not exist.''] w2)
           | _ \<Rightarrow> Raise e w2)
      | Return u w2 \<Rightarrow> delete_loop rest w2)"

definition handle_sd :: "'f world \<Rightarrow> (unit, 'f) result" where
  "handle_sd w =
     (let delete_files = [LOGPATH, ERRPATH, DATAPATH];
          w1 = (if \<not> cd_pin (env w) (ops w)
                then log ERROR [''No MicroSD card inserted.''] (step w)
                else step w)
      in if del_pin (env w1) (ops w1) then
           (let w2 = log INFO [''MICROSD_DEL pressed. Deleting all files.''] (step w1) in
            case delete_loop delete_files w2 of
              Raise e w3 \<Rightarrow> Raise e w3
            | Return u w3 \<Rightarrow> Return () (log INFO [''File deletion completed.''] w3))
         else Return () (step w1))"

definition handle_sensor :: "int \<Rightarrow> 'f sensor_base \<Rightarrow> 'f world \<Rightarrow> (unit, 'f) result" where
  "handle_sensor sensor_type' data' w =
     (case time_monotonic_ms w of (current_time, w1) \<Rightarrow>
        data2datafile \<lparr>sensor_type = sensor_type', data = data', timestamp = current_time\<rparr> w1)"

definition handle_bno08x :: "'f world \<Rightarrow> (unit, 'f) result" where
  "handle_bno08x w = handle_sensor BNO08X Bno08xData_get_data w"

definition handle_dps310 :: "'f world \<Rightarrow> (unit, 'f) result" where
  "handle_dps310 w = handle_sensor DPS310 DPS310Data_get_data w"

definition loop :: "'f world \<Rightarrow> (unit, 'f) result" where
  "loop w =
     (case handle_sd w of
        Raise e w1 \<Rightarrow> Raise e w1
      | Return u w1 \<Rightarrow>
          (case handle_dps310 w1 of
             Raise e w2 \<Rightarrow> Raise e w2
           | Return u w2 \<Rightarrow> handle_bno08x w2))"

subsection \<open>main\<close>

text \<open>
  \<^verbatim>\<open>server.poll()\<close> belongs to the HTTP library: here it returns or raises, as the
  environment says. The body of the \<^verbatim>\<open>while True\<close> loop is \<open>main_tick\<close>: the
  \<^verbatim>\<open>try\<close> block is \<open>main_try\<close>, and the handler of \<^verbatim>\<open>except Exception\<close> logs. A tick
  that raised would end the program, so \<open>main_tick\<close> has a result too, and \<open>main_loop n\<close>
  runs \<open>n\<close> iterations of the loop unless one of them raises.
\<close>

definition server_poll :: "'f world \<Rightarrow> (unit, 'f) result" where
  "server_poll w =
     (let w1 = step (emit EvPoll w) in
      case poll_fault (env w) (ops w) of
        Some e \<Rightarrow> Raise e w1
      | None \<Rightarrow> Return () w1)"

definition main_try :: "'f world \<Rightarrow> (unit, 'f) result" where
  "main_try w =
     (case server_poll w of
        Raise e w1 \<Rightarrow> Raise e w1
      | Return u w1 \<Rightarrow> loop w1)"

definition main_tick :: "'f world \<Rightarrow> (unit, 'f) result" where
  "main_tick w =
     (case main_try w of
        Raise e w1 \<Rightarrow>
          Return () (log ERROR [''Unexpected Error occured in main function: '' @ str_exn e] w1)
      | Return u w1 \<Rightarrow> Return () w1)"

fun main_loop :: "nat \<Rightarrow> 'f world \<Rightarrow> (unit, 'f) result" where
  "main_loop 0 w = Return () w"
| "main_loop (Suc n) w =
     (case main_tick w of
        Raise e w1 \<Rightarrow> Raise e w1
      | Return u w1 \<Rightarrow> main_loop n w1)"

section \<open>Vocabulary of the properties\<close>

text \<open>
  \<open>extends P w w'\<close>: the world \<open>w'\<close> comes after \<open>w\<close> on the same platform, and every
  event emitted in between satisfies \<open>P\<close>.
\<close>

definition extends :: "(event \<Rightarrow> bool) \<Rightarrow> 'f world \<Rightarrow> 'f world \<Rightarrow> bool" where
  "extends P w w' \<longleftrightarrow> env w' = env w \<and> (\<exists>evs. trace w' = trace w @ evs \<and> list_all P evs)"

text \<open>The events between two worlds of one run.\<close>

definition emitted :: "'f world \<Rightarrow> 'f world \<Rightarrow> event list" where
  "emitted w w' = drop (length (trace w)) (trace w')"

text \<open>The events of a call of \<^verbatim>\<open>log\<close>: console, UART and the two log files.\<close>

fun log_event :: "event \<Rightarrow> bool" where
  "log_event (EvPrint s) = True"
| "log_event (EvUart s) = True"
| "log_event (EvOpen p) = (p = LOGPATH \<or> p = ERRPATH)"
| "log_event (EvWrite p d) = (p = LOGPATH \<or> p = ERRPATH)"
| "log_event (EvClose p) = (p = LOGPATH \<or> p = ERRPATH)"
| "log_event (EvRemove p) = False"
| "log_event EvPoll = False"

text \<open>The events of a call of \<^verbatim>\<open>log\<close> below \<^verbatim>\<open>ERROR\<close>, and of the deletion loop.\<close>

fun delete_event :: "event \<Rightarrow> bool" where
  "delete_event (EvPrint s) = True"
| "delete_event (EvUart s) = True"
| "delete_event (EvOpen p) = (p = LOGPATH)"
| "delete_event (EvWrite p d) = (p = LOGPATH)"
| "delete_event (EvClose p) = (p = LOGPATH)"
| "delete_event (EvRemove p) = True"
| "delete_event EvPoll = False"

text \<open>The events of handling a sensor: those of \<^verbatim>\<open>log\<close> and those on the data file.\<close>

fun sensor_event :: "event \<Rightarrow> bool" where
  "sensor_event (EvRemove p) = False"
| "sensor_event EvPoll = False"
| "sensor_event ev = True"

fun data_open :: "event \<Rightarrow> bool" where
  "data_open (EvOpen p) = (p = DATAPATH)"
| "data_open ev = False"

fun data_write :: "event \<Rightarrow> bool" where
  "data_write (EvWrite p d) = (p = DATAPATH)"
| "data_write ev = False"

text \<open>The attempts to remove a file.\<close>

fun is_remove :: "event \<Rightarrow> bool" where
  "is_remove (EvRemove p) = True"
| "is_remove ev = False"

text \<open>What the console sinks receive for one line: \<^verbatim>\<open>print\<close>, then the UART if present.\<close>

definition console :: "'f env \<Rightarrow> string \<Rightarrow> event list" where
  "console E line = EvPrint line # (if uart_present E then [EvUart (line @ CRLF)] else [])"


text \<open>The files after \<open>s\<close> is appended to the file at \<open>path\<close>.\<close>

definition appended :: "string \<Rightarrow> string \<Rightarrow> (string \<rightharpoonup> string) \<Rightarrow> (string \<rightharpoonup> string)" where
  "appended path s fs = fs(path \<mapsto> (case fs path of None \<Rightarrow> [] | Some c \<Rightarrow> c) @ s)"

text \<open>
  From request \<open>n\<close> on, the DPS310 answers every read; from request \<open>n\<close> on, no open
  and no write fails. What the platform did before request \<open>n\<close> is left open.
\<close>

fun answered :: "exn + 'a \<Rightarrow> bool" where
  "answered (Inl e) = False"
| "answered (Inr x) = True"

definition dps310_ok :: "'f env \<Rightarrow> nat \<Rightarrow> bool" where
  "dps310_ok E n \<longleftrightarrow>
     (\<forall>k\<ge>n. answered (pressure E k) \<and> answered (temperature E k))"

definition storage_ok :: "'f env \<Rightarrow> nat \<Rightarrow> bool" where
  "storage_ok E n \<longleftrightarrow>
     (\<forall>k\<ge>n. \<forall>p. open_fault E k p = None \<and> write_fault E k p = None)"



text \<open>The requests to the HTTP server: one at the start of every tick.\<close>

fun is_poll :: "event \<Rightarrow> bool" where
  "is_poll EvPoll = True"
| "is_poll ev = False"

section \<open>Example platforms\<close>

text \<open>
  A platform on which nothing fails, used to run the program on concrete inputs: the
  clock starts at 120000 ms, the card is present, the delete input is low, and the
  DPS310 reads 1013.25 and 21.5.
\<close>

definition example_float_str :: "real \<Rightarrow> string" where
  "example_float_str x =
     (if x = 1013.25 then ''1013.25'' else if x = 21.5 then ''21.5'' else ''0.0'')"

definition example_env :: "real env" where
  "example_env =
     \<lparr>monotonic_ms = (\<lambda>k. 120000 + int k),
      cd_pin = (\<lambda>k. True),
      del_pin = (\<lambda>k. False),
      acceleration = (\<lambda>k. Inr (Some [0, 0, 0])),
      pressure = (\<lambda>k. Inr 1013.25),
      temperature = (\<lambda>k. Inr 21.5),
      open_fault = (\<lambda>k p. None),
      write_fault = (\<lambda>k p. None),
      remove_fault = (\<lambda>k p. None),
      poll_fault = (\<lambda>k. None),
      uart_present = False,
      float_str = example_float_str\<rparr>"

definition example_world :: "real world" where
  "example_world = \<lparr>env = example_env, ops = 0, files = Map.empty, trace = []\<rparr>"

text \<open>The same platform with an I/O error where a scenario needs one.\<close>

definition io_error :: exn where
  "io_error = OSError ''[Errno 5] Input/output error''"

definition dps_fault_world :: "real world" where
  "dps_fault_world =
     example_world\<lparr>env := example_env\<lparr>pressure := (\<lambda>k. Inl io_error)\<rparr>\<rparr>"

definition open_fault_world :: "real world" where
  "open_fault_world =
     example_world\<lparr>env := example_env
       \<lparr>open_fault := (\<lambda>k p. if p = DATAPATH then Some io_error else None)\<rparr>\<rparr>"

definition dps310_reading :: "real sensor_data" where
  "dps310_reading = \<lparr>sensor_type = DPS310, data = DPS310Data_get_data, timestamp = 120000\<rparr>"


text \<open>The card pulled out: the presence input reads low and every open fails.\<close>

definition no_card_world :: "real world" where
  "no_card_world =
     example_world\<lparr>env := example_env
       \<lparr>cd_pin := (\<lambda>k. False), open_fault := (\<lambda>k p. Some io_error)\<rparr>\<rparr>"

text \<open>
  The card pulled out and put back: up to request 10 the presence input reads low and
  every open fails, from request 11 on the input reads high and the opens succeed.
\<close>

definition card_back_world :: "real world" where
  "card_back_world =
     example_world\<lparr>env := example_env
       \<lparr>cd_pin := (\<lambda>k. 11 \<le> k),
        open_fault := (\<lambda>k p. if k < 11 then Some io_error else None)\<rparr>\<rparr>"

text \<open>The world after the first tick on that platform: three opens have failed.\<close>

definition card_back_after :: "real world" where
  "card_back_after =
     card_back_world\<lparr>ops := 11, trace :=
       [EvPoll,
        EvPrint ''[ERROR] - [120002]: No MicroSD card inserted.'',
        EvOpen ''/sd/error.log'',
        EvPrint ''Could not write to /sd/error.log:  [Errno 5] Input/output error'',
        EvOpen ''/sd/data.txt'',
        EvPrint ''[ERROR] - [120009]: Unexpected Error occured in main function: [Errno 5] Input/output error'',
        EvOpen ''/sd/error.log'',
        EvPrint ''Could not write to /sd/error.log:  [Errno 5] Input/output error'']\<rparr>"





text \<open>
  A fault inside one tick: the fifth request, the pressure read of the first tick,
  raises an I/O error; everything else works. \<open>sensor_fault_after\<close> is the world after
  that first tick.
\<close>

definition sensor_fault_world :: "real world" where
  "sensor_fault_world =
     example_world\<lparr>env := example_env
       \<lparr>pressure := (\<lambda>k. if k = 4 then Inl io_error else Inr 1013.25)\<rparr>\<rparr>"

definition sensor_fault_after :: "real world" where
  "sensor_fault_after =
     sensor_fault_world\<lparr>ops := 8,
       files := [''/sd/error.log'' \<mapsto>
         ''[ERROR] - [120005]: Unexpected Error occured in main function: [Errno 5] Input/output error''
         @ CRLF],
       trace :=
         [EvPoll,
          EvPrint ''[ERROR] - [120005]: Unexpected Error occured in main function: [Errno 5] Input/output error'',
          EvOpen ''/sd/error.log'',
          EvWrite ''/sd/error.log''
            (''[ERROR] - [120005]: Unexpected Error occured in main function: [Errno 5] Input/output error''
             @ CRLF),
          EvClose ''/sd/error.log'']\<rparr>"

section \<open>Lemmas\<close>

lemma str_nat_digit: "n < 10 \<Longrightarrow> str_nat n = [digit_char n]"
  by (simp add: str_nat.simps)

lemma str_nat_step: "10 \<le> n \<Longrightarrow> str_nat n = str_nat (n div 10) @ [digit_char (n mod 10)]"
  by (subst str_nat.simps) simp

lemmas str_eval = str_int_def str_nat_digit str_nat_step digit_char_def

lemma str_nat_nonempty: "str_nat n \<noteq> []"
  by (subst str_nat.simps) simp

lemma str_int_nonempty: "str_int i \<noteq> []"
  by (simp add: str_int_def str_nat_nonempty)

lemmas level_defs = DEBUG_def INFO_def WARN_def ERROR_def
lemmas path_defs = DATAPATH_def LOGPATH_def ERRPATH_def SD_ROOT_def DATA_FILE_def
  LOG_FILE_def ERR_FILE_def
lemmas prim_defs = step_def emit_def py_print_def uart_write_def file_close_def
  open_append_def file_write_def os_remove_def time_monotonic_ms_def

lemma LogLevel_get_name_known:
  "LogLevel_get_name DEBUG w = (''DEBUG'', w)"
  "LogLevel_get_name INFO w = (''INFO'', w)"
  "LogLevel_get_name WARN w = (''WARN'', w)"
  "LogLevel_get_name ERROR w = (''ERROR'', w)"
  by (simp_all add: LogLevel_get_name.simps level_defs)

lemma log_nil: "log level [] w = log_sinks level [] w"
  by (simp add: log.simps)

lemma log_known:
  assumes "message \<noteq> []"
  shows "log DEBUG message w =
           log_sinks DEBUG (log_format ''DEBUG'' (monotonic_ms (env w) (ops w)) (concat message)) (step w)"
    and "log INFO message w =
           log_sinks INFO (log_format ''INFO'' (monotonic_ms (env w) (ops w)) (concat message)) (step w)"
    and "log WARN message w =
           log_sinks WARN (log_format ''WARN'' (monotonic_ms (env w) (ops w)) (concat message)) (step w)"
    and "log ERROR message w =
           log_sinks ERROR (log_format ''ERROR'' (monotonic_ms (env w) (ops w)) (concat message)) (step w)"
  using assms by (simp_all add: log.simps LogLevel_get_name_known time_monotonic_ms_def)

lemma log_unknown:
  assumes "message \<noteq> []" "level \<notin> {DEBUG, INFO, WARN, ERROR}"
  shows "log level message w =
           log_sinks level (log_format ''UNKNOWN'' (monotonic_ms (env w) (ops w)) (concat message))
             (log WARN [''Log level '' @ str_int level @ '' is unknown.''] (step w))"
  using assms by (simp add: log.simps [of level] LogLevel_get_name.simps [of level] time_monotonic_ms_def)

lemma extends_refl: "extends P w w"
  by (simp add: extends_def)

lemma extends_trans: "extends P a b \<Longrightarrow> extends P b c \<Longrightarrow> extends P a c"
  by (auto simp: extends_def)

lemma extends_mono: "extends P a b \<Longrightarrow> (\<And>ev. P ev \<Longrightarrow> Q ev) \<Longrightarrow> extends Q a b"
  by (auto simp: extends_def list_all_iff)

lemma extends_env: "extends P a b \<Longrightarrow> env b = env a"
  by (simp add: extends_def)

lemma extends_step: "extends P w (step w)"
  by (simp add: extends_def step_def)

lemma extends_emit: "P ev \<Longrightarrow> extends P w (emit ev w)"
  by (simp add: extends_def emit_def)

lemma log_try_extends: "p = LOGPATH \<or> p = ERRPATH \<Longrightarrow> extends log_event w (log_try p s w)"
  by (auto simp: extends_def log_try_def log_except_def prim_defs Let_def
      split: option.splits exn.splits)

lemma log_sinks_extends: "extends log_event w (log_sinks level s w)"
proof -
  let ?w2 = "py_print s w"
  let ?w3 = "if uart_present (env ?w2) then uart_write (s @ CRLF) ?w2 else ?w2"
  have a: "extends log_event w ?w3"
    by (simp add: extends_def prim_defs)
  have b: "extends log_event ?w3 (log_try (if level = ERROR then ERRPATH else LOGPATH) s ?w3)"
    by (rule log_try_extends) simp
  show ?thesis
    unfolding log_sinks_def Let_def using a extends_trans [OF a b] by simp
qed

lemma log_WARN_extends: "extends log_event w (log WARN m w)"
proof (cases "m = []")
  case True
  then show ?thesis by (simp add: log_nil log_sinks_extends)
next
  case False
  then show ?thesis
    by (simp add: log_known extends_trans [OF extends_step log_sinks_extends])
qed

lemma log_extends: "extends log_event w (log level m w)"
proof (cases "m = []")
  case True
  then show ?thesis by (simp add: log_nil log_sinks_extends)
next
  case False
  show ?thesis
  proof (cases "level \<in> {DEBUG, INFO, WARN, ERROR}")
    case True
    with False show ?thesis
      by (auto simp: log_known extends_trans [OF extends_step log_sinks_extends])
  next
    case unk: False
    have "extends log_event w (log WARN [''Log level '' @ str_int level @ '' is unknown.''] (step w))"
      by (rule extends_trans [OF extends_step log_WARN_extends])
    then show ?thesis
      using False unk by (simp add: log_unknown extends_trans [OF _ log_sinks_extends])
  qed
qed


lemma SensorType_get_name_known:
  "SensorType_get_name BNO08X w = (''bno08x'', w)"
  "SensorType_get_name DPS310 w = (''dps310'', w)"
  by (simp_all add: SensorType_get_name_def BNO08X_def DPS310_def)

lemma level_distinct:
  "INFO \<noteq> DEBUG" "WARN \<noteq> DEBUG" "ERROR \<noteq> DEBUG" "INFO \<noteq> ERROR" "WARN \<noteq> ERROR"
  "DEBUG \<noteq> ERROR" "INFO \<noteq> WARN"
  by (simp_all add: level_defs)

lemma log_sinks_DEBUG:
  "log_sinks DEBUG s w = w\<lparr>trace := trace w @ console (env w) s\<rparr>"
  by (simp add: log_sinks_def console_def prim_defs)

lemma log_sinks_file:
  assumes "level \<noteq> DEBUG"
  shows "log_sinks level s w =
     log_try (if level = ERROR then ERRPATH else LOGPATH) s (w\<lparr>trace := trace w @ console (env w) s\<rparr>)"
  using assms by (simp add: log_sinks_def console_def prim_defs)

lemma log_try_attempt:
  "\<exists>evs. trace (log_try p s w) = trace w @ EvOpen p # evs"
  by (auto simp: log_try_def log_except_def prim_defs Let_def split: option.splits exn.splits)

lemma log_try_ok:
  assumes "open_fault (env w) (ops w) p = None" and "write_fault (env w) (Suc (ops w)) p = None"
  shows "log_try p s w =
     w\<lparr>ops := Suc (Suc (ops w)), files := appended p (s @ CRLF) (files w),
       trace := trace w @ [EvOpen p, EvWrite p (s @ CRLF), EvClose p]\<rparr>"
  using assms
  by (auto simp: log_try_def prim_defs Let_def appended_def split: option.splits)

lemma log_sinks_prints: "\<exists>evs. trace (log_sinks level s w) = trace w @ EvPrint s # evs"
  using log_try_attempt [of "if level = ERROR then ERRPATH else LOGPATH" s
      "w\<lparr>trace := trace w @ console (env w) s\<rparr>"]
  by (cases "level = DEBUG") (auto simp: log_sinks_DEBUG log_sinks_file console_def)

lemma log_ERROR_prints:
  "\<exists>evs. trace (log ERROR [s] w) =
     trace w @ EvPrint (log_format ''ERROR'' (monotonic_ms (env w) (ops w)) s) # evs"
  using log_sinks_prints [of ERROR "log_format ''ERROR'' (monotonic_ms (env w) (ops w)) s" "step w"]
  by (simp add: log_known step_def)

lemmas example_defs = example_world_def example_env_def example_float_str_def
  dps_fault_world_def open_fault_world_def dps310_reading_def io_error_def

lemmas program_defs = to_influx_line_def SensorType_get_name_known DPS310Data_get_data_def
  Bno08xData_get_data_def data2datafile_def handle_sensor_def handle_dps310_def
  handle_bno08x_def handle_sd_def loop_def server_poll_def main_try_def main_tick_def
  log_known log_sinks_def log_try_def log_except_def prim_defs Let_def

lemma dps310_encoding_example:
  "to_influx_line dps310_reading (step open_fault_world) =
     Return ''dps310 pressure=1013.25,temp=21.5 120000'' (step (step (step open_fault_world)))"
  by (simp add: to_influx_line_def SensorType_get_name_known DPS310Data_get_data_def
      example_defs step_def str_eval)

lemma main_tick_returns: "returns (main_tick w)"
  by (simp add: main_tick_def split: result.splits)

lemma main_loop_returns: "returns (main_loop n w)"
proof (induction n arbitrary: w)
  case 0
  show ?case by simp
next
  case (Suc n)
  show ?case
  proof (cases "main_tick w")
    case (Raise e w')
    with main_tick_returns [of w] show ?thesis by simp
  next
    case (Return u w')
    with Suc.IH [of w'] show ?thesis by simp
  qed
qed

lemma paths_distinct:
  "LOGPATH \<noteq> DATAPATH" "ERRPATH \<noteq> DATAPATH" "LOGPATH \<noteq> ERRPATH"
  "DATAPATH \<noteq> LOGPATH" "DATAPATH \<noteq> ERRPATH" "ERRPATH \<noteq> LOGPATH"
  by (simp_all add: path_defs)

lemma log_event_cases:
  assumes "log_event ev"
  shows "sensor_event ev" "\<not> is_remove ev" "\<not> data_open ev" "\<not> data_write ev" "ev \<noteq> EvPoll"
  using assms by (cases ev; auto simp: paths_distinct)+

lemma extends_filter:
  assumes "extends P w w'" and "\<And>ev. P ev \<Longrightarrow> \<not> Q ev"
  shows "filter Q (trace w') = filter Q (trace w)"
proof -
  from assms(1) obtain evs where evs: "trace w' = trace w @ evs" "list_all P evs"
    by (auto simp: extends_def)
  from evs(2) assms(2) have "filter Q evs = []"
    by (auto simp: list_all_iff filter_empty_conv)
  with evs(1) show ?thesis by simp
qed

lemma extends_log_sensor: "extends log_event w w' \<Longrightarrow> extends sensor_event w w'"
  by (erule extends_mono) (rule log_event_cases)

lemma SensorType_get_name_extends:
  "extends log_event w (snd (SensorType_get_name st w))"
  by (simp add: SensorType_get_name_def extends_refl log_extends)

lemma Bno08xData_get_data_extends:
  "extends log_event w (world_of (Bno08xData_get_data w))"
proof (cases "acceleration (env w) (ops w)")
  case (Inl e)
  then show ?thesis by (simp add: Bno08xData_get_data_def extends_step)
next
  case (Inr acc)
  have a: "extends log_event w (step w)" by (rule extends_step)
  have b: "extends log_event w (log ERROR [''Could not get acceleration data from bno08x.''] (step w))"
    by (rule extends_trans [OF extends_step log_extends])
  from Inr a b show ?thesis
    by (auto simp: Bno08xData_get_data_def Let_def split: option.splits list.splits)
qed

lemma DPS310Data_get_data_extends:
  "extends log_event w (world_of (DPS310Data_get_data w))"
  by (auto simp: DPS310Data_get_data_def Let_def extends_def step_def split: sum.splits)

lemma to_influx_line_extends:
  assumes "\<And>w. extends log_event w (world_of (data sd w))"
  shows "extends log_event w (world_of (to_influx_line sd w))"
proof -
  obtain m w1 where n: "SensorType_get_name (sensor_type sd) w = (m, w1)"
    by (cases "SensorType_get_name (sensor_type sd) w")
  have a: "extends log_event w w1"
    using SensorType_get_name_extends [of w "sensor_type sd"] n by simp
  have b: "extends log_event w1 (world_of (data sd w1))" by (rule assms)
  show ?thesis
    using extends_trans [OF a b] n
    by (cases "data sd w1") (simp_all add: to_influx_line_def Let_def)
qed

lemma to_influx_line_nonempty:
  "to_influx_line sd w = Return s wa \<Longrightarrow> s \<noteq> []"
  by (auto simp: to_influx_line_def Let_def split: prod.splits result.splits)

lemma log_events_filters:
  assumes "list_all log_event evs"
  shows "filter data_open evs = []" "filter data_write evs = []" "filter is_remove evs = []"
    "list_all sensor_event evs"
  using assms by (auto simp: list_all_iff filter_empty_conv log_event_cases)

lemma extendsE:
  assumes "extends P w w'"
  obtains evs where "trace w' = trace w @ evs" "list_all P evs" "env w' = env w"
  using assms by (auto simp: extends_def)

lemma data2datafile_events:
  assumes ext: "\<And>w. extends log_event w (world_of (data sd w))"
    and enc: "to_influx_line sd w = Return s wa"
  shows "\<exists>evs. trace (world_of (data2datafile sd w)) = trace wa @ EvOpen DATAPATH # evs
           \<and> env (world_of (data2datafile sd w)) = env wa
           \<and> list_all sensor_event evs
           \<and> filter data_open evs = []
           \<and> (filter data_write evs = [] \<or> filter data_write evs = [EvWrite DATAPATH (s @ CRLF)])
           \<and> (returns (data2datafile sd w) \<longrightarrow>
                filter data_write evs = [EvWrite DATAPATH (s @ CRLF)])"
proof -
  have ne: "s \<noteq> []" using enc by (rule to_influx_line_nonempty)
  show ?thesis
  proof (cases "open_append DATAPATH wa")
    case (Raise e wo)
    then have "trace wo = trace wa @ [EvOpen DATAPATH]" "env wo = env wa"
      by (auto simp: open_append_def prim_defs Let_def split: option.splits)
    with Raise enc ne show ?thesis by (simp add: data2datafile_def)
  next
    case (Return u wo)
    then have wo: "trace wo = trace wa @ [EvOpen DATAPATH]" "env wo = env wa"
      by (auto simp: open_append_def prim_defs Let_def split: option.splits)
    have "extends log_event wo (world_of (to_influx_line sd wo))"
      using ext by (rule to_influx_line_extends)
    then obtain evs2 where e2: "trace (world_of (to_influx_line sd wo)) = trace wo @ evs2"
      "list_all log_event evs2" "env (world_of (to_influx_line sd wo)) = env wo"
      by (rule extendsE)
    show ?thesis
    proof (cases "to_influx_line sd wo")
      case r2: (Raise e w3)
      with e2 wo Return enc ne log_events_filters [OF e2(2)] show ?thesis
        by (simp add: data2datafile_def file_close_def emit_def)
    next
      case r2: (Return line2 w3)
      let ?w4 = "log DEBUG [''Appending '' @ [CHR 0x27] @ line2 @ [CHR 0x27] @ '' to '' @ DATAPATH] w3"
      have "extends log_event w3 ?w4" by (rule log_extends)
      then obtain evs3 where e3: "trace ?w4 = trace w3 @ evs3" "list_all log_event evs3"
        "env ?w4 = env w3"
        by (rule extendsE)
      show ?thesis
      proof (cases "file_write DATAPATH (s @ CRLF) ?w4")
        case fw: (Raise e w5)
        then have w5: "trace w5 = trace ?w4 @ [EvWrite DATAPATH (s @ CRLF)]" "env w5 = env ?w4"
          by (auto simp: file_write_def prim_defs Let_def split: option.splits)
        with fw r2 e2 e3 wo Return enc ne log_events_filters [OF e2(2)]
          log_events_filters [OF e3(2)] show ?thesis
          by (simp add: data2datafile_def file_close_def emit_def)
      next
        case fw: (Return u' w5)
        then have w5: "trace w5 = trace ?w4 @ [EvWrite DATAPATH (s @ CRLF)]" "env w5 = env ?w4"
          by (auto simp: file_write_def prim_defs Let_def split: option.splits)
        with fw r2 e2 e3 wo Return enc ne log_events_filters [OF e2(2)]
          log_events_filters [OF e3(2)] show ?thesis
          by (simp add: data2datafile_def file_close_def emit_def)
      qed
    qed
  qed
qed

lemma data2datafile_extends:
  assumes ext: "\<And>w. extends log_event w (world_of (data sd w))"
  shows "extends sensor_event w (world_of (data2datafile sd w))"
proof (cases "to_influx_line sd w")
  case (Raise e wa)
  have "extends sensor_event w (world_of (to_influx_line sd w))"
    using to_influx_line_extends [OF ext] by (rule extends_log_sensor)
  with Raise show ?thesis by (simp add: data2datafile_def)
next
  case (Return s wa)
  have "extends log_event w (world_of (to_influx_line sd w))"
    using ext by (rule to_influx_line_extends)
  then obtain evs1 where e1: "trace wa = trace w @ evs1" "list_all log_event evs1" "env wa = env w"
    using Return by (auto elim: extendsE)
  from data2datafile_events [OF ext Return] obtain evs where
    "trace (world_of (data2datafile sd w)) = trace wa @ EvOpen DATAPATH # evs"
    "env (world_of (data2datafile sd w)) = env wa" "list_all sensor_event evs"
    by blast
  with e1 log_events_filters(4) [OF e1(2)] show ?thesis
    by (simp add: extends_def)
qed

lemma handle_sensor_extends:
  assumes ext: "\<And>w. extends log_event w (world_of (d w))"
  shows "extends sensor_event w (world_of (handle_sensor st d w))"
proof -
  have "extends sensor_event (step w)
      (world_of (data2datafile \<lparr>sensor_type = st, data = d, timestamp = monotonic_ms (env w) (ops w)\<rparr> (step w)))"
    by (rule data2datafile_extends) (simp add: ext)
  then show ?thesis
    using extends_trans [OF extends_step] by (simp add: handle_sensor_def time_monotonic_ms_def)
qed

lemma handle_dps310_extends: "extends sensor_event w (world_of (handle_dps310 w))"
  unfolding handle_dps310_def by (rule handle_sensor_extends) (rule DPS310Data_get_data_extends)

lemma handle_bno08x_extends: "extends sensor_event w (world_of (handle_bno08x w))"
  unfolding handle_bno08x_def by (rule handle_sensor_extends) (rule Bno08xData_get_data_extends)

lemma os_remove_events:
  "trace (world_of (os_remove p w)) = trace w @ [EvRemove p]" "env (world_of (os_remove p w)) = env w"
  by (auto simp: os_remove_def prim_defs Let_def split: option.splits)



lemma extends_any: "extends P a b \<Longrightarrow> extends (\<lambda>ev. True) a b"
  by (erule extends_mono) simp

lemma log_after: "extends (\<lambda>ev. True) w (log level m w)"
  using log_extends by (rule extends_any)

lemma os_remove_after: "extends (\<lambda>ev. True) w (world_of (os_remove p w))"
  by (simp add: extends_def os_remove_events)

lemma delete_loop_after: "extends (\<lambda>ev. True) w (world_of (delete_loop ps w))"
proof (induction ps arbitrary: w)
  case Nil
  show ?case by (simp add: extends_refl)
next
  case (Cons path rest)
  let ?w1 = "log DEBUG [''Removing file '' @ path @ ''.''] w"
  have a: "extends (\<lambda>ev. True) w (world_of (os_remove path ?w1))"
    by (rule extends_trans [OF log_after os_remove_after])
  show ?case
  proof (cases "os_remove path ?w1")
    case (Return u w2)
    with a extends_trans [OF _ Cons.IH [of w2]] show ?thesis by (simp add: Let_def)
  next
    case (Raise e w2)
    with a have a2: "extends (\<lambda>ev. True) w w2" by simp
    have b: "extends (\<lambda>ev. True) w
        (world_of (delete_loop rest (log WARN [''File '' @ path @ '' does not exist.''] w2)))"
      by (rule extends_trans [OF a2 extends_trans [OF log_after Cons.IH]])
    from Raise a2 b show ?thesis by (cases e) (simp_all add: Let_def)
  qed
qed




lemma main_tick_after_try: "extends log_event (world_of (main_try w)) (world_of (main_tick w))"
  by (cases "main_try w") (simp_all add: main_tick_def log_extends extends_refl)




lemma emitted_append: "trace b = trace a @ evs \<Longrightarrow> emitted a b = evs"
  by (simp add: emitted_def)

lemma log_ERROR_attempt:
  "\<exists>evs. trace (log ERROR [s] w) =
     trace w @ console (env w) (log_format ''ERROR'' (monotonic_ms (env w) (ops w)) s)
     @ EvOpen ERRPATH # evs"
  using log_try_attempt [of ERRPATH "log_format ''ERROR'' (monotonic_ms (env w) (ops w)) s"
      "(step w)\<lparr>trace := trace w @ console (env w) (log_format ''ERROR'' (monotonic_ms (env w) (ops w)) s)\<rparr>"]
  by (simp add: log_known log_sinks_file level_distinct step_def)

lemma handle_sd_after_card_check:
  "extends (\<lambda>ev. True)
     (if \<not> cd_pin (env w) (ops w)
      then log ERROR [''No MicroSD card inserted.''] (step w) else step w)
     (world_of (handle_sd w))"
proof -
  let ?w1 = "if \<not> cd_pin (env w) (ops w)
             then log ERROR [''No MicroSD card inserted.''] (step w) else step w"
  show ?thesis
  proof (cases "del_pin (env ?w1) (ops ?w1)")
    case False
    then show ?thesis
      using extends_step [of "\<lambda>ev. True" ?w1] by (simp add: handle_sd_def Let_def)
  next
    case True
    let ?w2 = "log INFO [''MICROSD_DEL pressed. Deleting all files.''] (step ?w1)"
    have a: "extends (\<lambda>ev. True) ?w1 ?w2"
      by (rule extends_trans [OF extends_step log_after])
    have b: "extends (\<lambda>ev. True) ?w1 (world_of (delete_loop [LOGPATH, ERRPATH, DATAPATH] ?w2))"
      by (rule extends_trans [OF a delete_loop_after])
    show ?thesis
    proof (cases "delete_loop [LOGPATH, ERRPATH, DATAPATH] ?w2")
      case (Raise e w3)
      with b True show ?thesis by (simp add: handle_sd_def Let_def)
    next
      case (Return u w3)
      with b have "extends (\<lambda>ev. True) ?w1 w3" by simp
      from extends_trans [OF this log_after] Return True show ?thesis
        by (simp add: handle_sd_def Let_def)
    qed
  qed
qed

lemma handle_sd_card_absent:
  assumes "\<not> cd_pin (env w) (ops w)"
  shows "\<exists>evs. emitted w (world_of (handle_sd w)) =
           console (env w)
             (log_format ''ERROR'' (monotonic_ms (env w) (Suc (ops w))) ''No MicroSD card inserted.'')
           @ EvOpen ERRPATH # evs"
proof -
  let ?w1 = "log ERROR [''No MicroSD card inserted.''] (step w)"
  from log_ERROR_attempt [of "''No MicroSD card inserted.''" "step w"] obtain evs where
    a: "trace ?w1 = trace w @ console (env w)
          (log_format ''ERROR'' (monotonic_ms (env w) (Suc (ops w))) ''No MicroSD card inserted.'')
          @ EvOpen ERRPATH # evs"
    by (auto simp: step_def)
  from handle_sd_after_card_check [of w] assms
  have "extends (\<lambda>ev. True) ?w1 (world_of (handle_sd w))" by simp
  then obtain evs' where "trace (world_of (handle_sd w)) = trace ?w1 @ evs'"
    by (auto simp: extends_def)
  with a have "trace (world_of (handle_sd w)) = trace w @
      (console (env w)
          (log_format ''ERROR'' (monotonic_ms (env w) (Suc (ops w))) ''No MicroSD card inserted.'')
          @ EvOpen ERRPATH # (evs @ evs'))"
    by simp
  from emitted_append [OF this] show ?thesis by blast
qed

lemma answeredE: "answered x \<Longrightarrow> \<exists>v. x = Inr v"
  by (cases x) simp_all





lemma log_try_run_log: "extends delete_event w (log_try LOGPATH s w)"
  by (auto simp: extends_def log_try_def log_except_def prim_defs Let_def
      split: option.splits exn.splits)

lemma log_below_error:
  assumes "level = DEBUG \<or> level = INFO \<or> level = WARN" and "m \<noteq> []"
  shows "extends delete_event w (log level m w)"
proof -
  let ?s = "\<lambda>name. log_format name (monotonic_ms (env w) (ops w)) (concat m)"
  have d: "extends delete_event w (log_sinks DEBUG s (step w))" for s
    by (simp add: log_sinks_DEBUG extends_def step_def console_def)
  have f: "extends delete_event w (log_sinks level s (step w))"
    if "level \<noteq> DEBUG" "level \<noteq> ERROR" for level s
  proof -
    have "extends delete_event w ((step w)\<lparr>trace := trace (step w) @ console (env (step w)) s\<rparr>)"
      by (simp add: extends_def step_def console_def)
    from extends_trans [OF this log_try_run_log] that show ?thesis
      by (simp add: log_sinks_file)
  qed
  have i: "extends delete_event w (log_sinks INFO s (step w))"
    and wn: "extends delete_event w (log_sinks WARN s (step w))" for s
    by (rule f; simp add: level_distinct)+
  from assms(1) show ?thesis
  proof (elim disjE)
    assume "level = DEBUG"
    with assms(2) d show ?thesis by (simp add: log_known)
  next
    assume "level = INFO"
    with assms(2) i show ?thesis by (simp add: log_known)
  next
    assume "level = WARN"
    with assms(2) wn show ?thesis by (simp add: log_known)
  qed
qed

lemma delete_loop_events: "extends delete_event w (world_of (delete_loop ps w))"
proof (induction ps arbitrary: w)
  case Nil
  show ?case by (simp add: extends_refl)
next
  case (Cons path rest)
  let ?w1 = "log DEBUG [''Removing file '' @ path @ ''.''] w"
  have a0: "extends delete_event w ?w1"
    by (rule log_below_error) simp_all
  have "extends delete_event ?w1 (world_of (os_remove path ?w1))"
    by (simp add: extends_def os_remove_events)
  with a0 have a: "extends delete_event w (world_of (os_remove path ?w1))"
    by (rule extends_trans)
  show ?case
  proof (cases "os_remove path ?w1")
    case (Return u w2)
    with a extends_trans [OF _ Cons.IH [of w2]] show ?thesis by (simp add: Let_def)
  next
    case (Raise e w2)
    with a have a2: "extends delete_event w w2" by simp
    have "extends delete_event w2 (log WARN [''File '' @ path @ '' does not exist.''] w2)"
      by (rule log_below_error) simp_all
    from extends_trans [OF a2 extends_trans [OF this Cons.IH]]
    have b: "extends delete_event w
        (world_of (delete_loop rest (log WARN [''File '' @ path @ '' does not exist.''] w2)))" .
    from Raise a2 b show ?thesis by (cases e) (simp_all add: Let_def)
  qed
qed






lemma log_try_ops: "ops w \<le> ops (log_try p s w)"
  by (auto simp: log_try_def log_except_def prim_defs Let_def split: option.splits exn.splits)

lemma log_sinks_ops: "ops w \<le> ops (log_sinks level s w)"
proof -
  have "ops w \<le> ops (log_try p s (w\<lparr>trace := tr\<rparr>))" for p tr
    using log_try_ops [of "w\<lparr>trace := tr\<rparr>" p s] by simp
  then show ?thesis
    by (simp add: log_sinks_def prim_defs Let_def)
qed

lemma log_WARN_ops: "ops w \<le> ops (log WARN m w)"
proof (cases "m = []")
  case True
  then show ?thesis by (simp add: log_nil log_sinks_ops)
next
  case False
  have "ops (step w) \<le> ops (log WARN m w)"
    using False log_sinks_ops [of "step w" WARN] by (simp add: log_known)
  then show ?thesis by (simp add: step_def)
qed

lemma log_ops: "ops w \<le> ops (log level m w)"
proof (cases "m = []")
  case True
  then show ?thesis by (simp add: log_nil log_sinks_ops)
next
  case False
  have st: "ops w \<le> ops (log_sinks l s (step w))" for l s
    using log_sinks_ops [of "step w" l s] by (simp add: step_def)
  show ?thesis
  proof (cases "level \<in> {DEBUG, INFO, WARN, ERROR}")
    case True
    with False st show ?thesis by (auto simp: log_known)
  next
    case unk: False
    let ?w1 = "log WARN [''Log level '' @ str_int level @ '' is unknown.''] (step w)"
    have "ops w \<le> ops (step w)" by (simp add: step_def)
    also have "\<dots> \<le> ops ?w1" by (rule log_WARN_ops)
    also have "\<dots> \<le> ops (log_sinks level
        (log_format ''UNKNOWN'' (monotonic_ms (env w) (ops w)) (concat m)) ?w1)"
      by (rule log_sinks_ops)
    finally show ?thesis using False unk by (simp add: log_unknown)
  qed
qed

lemma dps310_okD:
  assumes "dps310_ok E n" and "n \<le> k"
  shows "\<exists>p. pressure E k = Inr p" and "\<exists>t. temperature E k = Inr t"
  using assms by (simp_all add: dps310_ok_def answeredE)

lemma dps310_ok_later: "dps310_ok E n \<Longrightarrow> n \<le> m \<Longrightarrow> dps310_ok E m"
  by (simp add: dps310_ok_def)

lemma handle_sd_no_del:
  assumes "\<forall>k\<ge>ops w. \<not> del_pin (env w) k"
  shows "\<exists>wa. handle_sd w = Return () wa \<and> extends log_event w wa \<and> ops w \<le> ops wa"
proof -
  let ?w1 = "if \<not> cd_pin (env w) (ops w)
             then log ERROR [''No MicroSD card inserted.''] (step w) else step w"
  have a: "extends log_event w ?w1"
    using extends_step [of log_event w] extends_trans [OF extends_step log_extends, of w]
    by simp
  then have e: "env ?w1 = env w" by (rule extends_env)
  have o: "ops w \<le> ops ?w1"
    using log_ops [of "step w" ERROR "[''No MicroSD card inserted.'']"] by (simp add: step_def)
  from assms e o have "handle_sd w = Return () (step ?w1)"
    by (simp add: handle_sd_def Let_def)
  moreover have "ops w \<le> ops (step ?w1)" using o by (simp add: step_def)
  ultimately show ?thesis using extends_trans [OF a extends_step] by simp
qed

lemma to_influx_line_dps310_returns:
  assumes "dps310_ok (env w) (ops w)"
  shows "\<exists>s wa. to_influx_line \<lparr>sensor_type = DPS310, data = DPS310Data_get_data, timestamp = ts\<rparr> w
           = Return s wa"
proof -
  from dps310_okD(1) [OF assms, of "ops w"] obtain p where p: "pressure (env w) (ops w) = Inr p"
    by auto
  from dps310_okD(2) [OF assms, of "Suc (ops w)"] obtain t where
    t: "temperature (env w) (Suc (ops w)) = Inr t"
    by auto
  from p t show ?thesis
    by (simp add: to_influx_line_def SensorType_get_name_known DPS310Data_get_data_def step_def)
qed

lemma handle_dps310_attempt:
  assumes "dps310_ok (env w) (ops w)"
  shows "\<exists>pre evs. trace (world_of (handle_dps310 w)) = trace w @ pre @ EvOpen DATAPATH # evs"
proof -
  let ?sd = "\<lparr>sensor_type = DPS310, data = DPS310Data_get_data,
              timestamp = monotonic_ms (env w) (ops w)\<rparr>"
  have ext: "\<And>w. extends log_event w (world_of (data ?sd w))"
    by (simp add: DPS310Data_get_data_extends)
  from assms have "dps310_ok (env (step w)) (ops (step w))"
    by (simp add: step_def dps310_ok_def)
  from to_influx_line_dps310_returns [OF this] obtain s wa where
    enc: "to_influx_line ?sd (step w) = Return s wa" by blast
  have "extends log_event (step w) (world_of (to_influx_line ?sd (step w)))"
    using ext by (rule to_influx_line_extends)
  with enc obtain pre where pre: "trace wa = trace w @ pre"
    by (auto simp: extends_def step_def)
  from data2datafile_events [OF ext enc] obtain evs where
    "trace (world_of (data2datafile ?sd (step w))) = trace wa @ EvOpen DATAPATH # evs"
    by blast
  with pre show ?thesis
    by (auto simp: handle_dps310_def handle_sensor_def time_monotonic_ms_def)
qed

lemma loop_attempts_append:
  assumes nd: "\<forall>k\<ge>ops w. \<not> del_pin (env w) k" and ok: "dps310_ok (env w) (ops w)"
  shows "EvOpen DATAPATH \<in> set (emitted w (world_of (loop w)))"
proof -
  from handle_sd_no_del [OF nd] obtain wa where
    sd: "handle_sd w = Return () wa" "extends log_event w wa" "ops w \<le> ops wa" by blast
  then obtain e1 where e1: "trace wa = trace w @ e1" "env wa = env w"
    by (auto simp: extends_def)
  from dps310_ok_later [OF ok sd(3)] e1(2) have "dps310_ok (env wa) (ops wa)" by simp
  from handle_dps310_attempt [OF this] obtain pre evs where
    d: "trace (world_of (handle_dps310 wa)) = trace wa @ pre @ EvOpen DATAPATH # evs" by blast
  have "\<exists>evs'. trace (world_of (loop w)) = trace w @ (e1 @ pre @ EvOpen DATAPATH # evs')"
  proof (cases "handle_dps310 wa")
    case (Raise e wb)
    with d e1 sd show ?thesis by (simp add: loop_def)
  next
    case (Return u wb)
    from handle_bno08x_extends [of wb] obtain e3 where
      "trace (world_of (handle_bno08x wb)) = trace wb @ e3"
      by (auto simp: extends_def)
    with Return d e1 sd show ?thesis by (simp add: loop_def)
  qed
  then obtain evs' where "trace (world_of (loop w)) = trace w @ (e1 @ pre @ EvOpen DATAPATH # evs')"
    by blast
  from emitted_append [OF this] show ?thesis by simp
qed

lemma handle_dps310_appends:
  assumes ok: "dps310_ok (env w) (ops w)" and st: "storage_ok (env w) (ops w)"
  shows "\<exists>s. returns (handle_dps310 w)
           \<and> filter data_write (emitted w (world_of (handle_dps310 w))) = [EvWrite DATAPATH (s @ CRLF)]
           \<and> files (world_of (handle_dps310 w)) = appended DATAPATH (s @ CRLF) (files w)"
proof -
  from dps310_okD(1) [OF ok, of "Suc (ops w)"] obtain p1 where
    p1: "pressure (env w) (Suc (ops w)) = Inr p1"
    by auto
  from dps310_okD(2) [OF ok, of "Suc (Suc (ops w))"] obtain t1 where
    t1: "temperature (env w) (Suc (Suc (ops w))) = Inr t1"
    by auto
  from dps310_okD(1) [OF ok, of "Suc (Suc (Suc (Suc (ops w))))"] obtain p2 where
    p2: "pressure (env w) (Suc (Suc (Suc (Suc (ops w))))) = Inr p2"
    by auto
  from dps310_okD(2) [OF ok, of "Suc (Suc (Suc (Suc (Suc (ops w)))))"] obtain t2 where
    t2: "temperature (env w) (Suc (Suc (Suc (Suc (Suc (ops w)))))) = Inr t2"
    by auto
  from st have o: "open_fault (env w) (Suc (Suc (Suc (ops w)))) DATAPATH = None"
    and wf: "write_fault (env w) (Suc (Suc (Suc (Suc (Suc (Suc (Suc (ops w)))))))) DATAPATH = None"
    unfolding storage_ok_def by auto
  let ?s = "''dps310 pressure='' @ float_str (env w) p1 @ '',temp='' @ float_str (env w) t1
            @ '' '' @ str_int (monotonic_ms (env w) (ops w))"
  have "returns (handle_dps310 w)
      \<and> filter data_write (emitted w (world_of (handle_dps310 w))) = [EvWrite DATAPATH (?s @ CRLF)]
      \<and> files (world_of (handle_dps310 w)) = appended DATAPATH (?s @ CRLF) (files w)"
    using p1 t1 p2 t2 o wf
    by (simp add: handle_dps310_def handle_sensor_def data2datafile_def to_influx_line_def
        SensorType_get_name_known DPS310Data_get_data_def log_known log_sinks_DEBUG prim_defs
        Let_def emitted_def appended_def console_def paths_distinct split: option.splits)
  then show ?thesis by blast
qed

lemma card_back_first_tick: "main_tick card_back_world = Return () card_back_after"
  by (simp add: program_defs example_defs card_back_world_def card_back_after_def str_eval
      path_defs level_distinct log_format_def)

lemma card_back_second_tick:
  "files (world_of (main_tick card_back_after)) DATAPATH =
     Some (''dps310 pressure=1013.25,temp=21.5 120014'' @ CRLF
           @ ''bno08x accel_x=0.0,accel_y=0.0,accel_z=0.0 120022'' @ CRLF)"
  by (simp add: program_defs example_defs card_back_world_def card_back_after_def str_eval
      path_defs level_distinct log_format_def)









lemma not_poll:
  "log_event ev \<Longrightarrow> \<not> is_poll ev" "delete_event ev \<Longrightarrow> \<not> is_poll ev"
  "sensor_event ev \<Longrightarrow> \<not> is_poll ev"
  by (cases ev; simp)+

lemma log_no_poll: "extends (\<lambda>ev. \<not> is_poll ev) w (log level m w)"
  using log_extends by (rule extends_mono) (rule not_poll)

lemma handle_sd_no_poll: "extends (\<lambda>ev. \<not> is_poll ev) w (world_of (handle_sd w))"
proof -
  let ?P = "\<lambda>ev. \<not> is_poll ev"
  let ?w1 = "if \<not> cd_pin (env w) (ops w)
             then log ERROR [''No MicroSD card inserted.''] (step w) else step w"
  have a1: "extends ?P w ?w1"
    using extends_step [of ?P w] extends_trans [OF extends_step log_no_poll, of w]
    by simp
  show ?thesis
  proof (cases "del_pin (env ?w1) (ops ?w1)")
    case False
    then show ?thesis
      using extends_trans [OF a1 extends_step] by (simp add: handle_sd_def Let_def)
  next
    case True
    let ?w2 = "log INFO [''MICROSD_DEL pressed. Deleting all files.''] (step ?w1)"
    have a: "extends ?P w ?w2"
      by (rule extends_trans [OF a1 extends_trans [OF extends_step log_no_poll]])
    have "extends ?P ?w2 (world_of (delete_loop [LOGPATH, ERRPATH, DATAPATH] ?w2))"
      using delete_loop_events by (rule extends_mono) (rule not_poll)
    with a have b: "extends ?P w (world_of (delete_loop [LOGPATH, ERRPATH, DATAPATH] ?w2))"
      by (rule extends_trans)
    show ?thesis
    proof (cases "delete_loop [LOGPATH, ERRPATH, DATAPATH] ?w2")
      case (Raise e w3)
      with b True show ?thesis by (simp add: handle_sd_def Let_def)
    next
      case (Return u w3)
      with b have "extends ?P w w3" by simp
      from extends_trans [OF this log_no_poll] Return True show ?thesis
        by (simp add: handle_sd_def Let_def)
    qed
  qed
qed

lemma loop_no_poll: "extends (\<lambda>ev. \<not> is_poll ev) w (world_of (loop w))"
proof -
  let ?P = "\<lambda>ev. \<not> is_poll ev"
  have dps: "extends ?P a (world_of (handle_dps310 a))" for a :: "'a world"
    using handle_dps310_extends by (rule extends_mono) (rule not_poll)
  have bno: "extends ?P a (world_of (handle_bno08x a))" for a :: "'a world"
    using handle_bno08x_extends by (rule extends_mono) (rule not_poll)
  show ?thesis
  proof (cases "handle_sd w")
    case (Raise e wa)
    with handle_sd_no_poll [of w] show ?thesis by (simp add: loop_def)
  next
    case sd: (Return u wa)
    with handle_sd_no_poll [of w] have a: "extends ?P w wa" by simp
    show ?thesis
    proof (cases "handle_dps310 wa")
      case (Raise e wb)
      with extends_trans [OF a dps [of wa]] sd show ?thesis by (simp add: loop_def)
    next
      case (Return u' wb)
      with extends_trans [OF a dps [of wa]] have "extends ?P w wb" by simp
      from extends_trans [OF this bno] Return sd show ?thesis by (simp add: loop_def)
    qed
  qed
qed

lemma main_tick_events:
  "\<exists>evs. trace (world_of (main_tick w)) = trace w @ EvPoll # evs
         \<and> list_all (\<lambda>ev. \<not> is_poll ev) evs"
proof -
  let ?P = "\<lambda>ev. \<not> is_poll ev"
  let ?w1 = "step (emit EvPoll w)"
  have t1: "trace ?w1 = trace w @ [EvPoll]" by (simp add: prim_defs)
  have a: "extends ?P ?w1 (world_of (main_try w))"
  proof (cases "poll_fault (env w) (ops w)")
    case None
    then have "main_try w = loop ?w1" by (simp add: main_try_def server_poll_def Let_def)
    then show ?thesis by (simp add: loop_no_poll)
  next
    case (Some e)
    then have "main_try w = Raise e ?w1" by (simp add: main_try_def server_poll_def Let_def)
    then show ?thesis by (simp add: extends_refl)
  qed
  have "extends ?P (world_of (main_try w)) (world_of (main_tick w))"
    using main_tick_after_try by (rule extends_mono) (rule not_poll)
  with a have "extends ?P ?w1 (world_of (main_tick w))" by (rule extends_trans)
  then obtain evs where "trace (world_of (main_tick w)) = trace ?w1 @ evs" "list_all ?P evs"
    by (rule extendsE)
  with t1 show ?thesis by simp
qed

lemma main_loop_polls:
  "\<exists>evs. trace (world_of (main_loop n w)) = trace w @ evs
         \<and> filter is_poll evs = replicate n EvPoll"
proof (induction n arbitrary: w)
  case 0
  show ?case by simp
next
  case (Suc n)
  obtain w' where w': "main_tick w = Return () w'"
    using main_tick_returns [of w] by (cases "main_tick w") simp_all
  from main_tick_events [of w] w' obtain e1 where
    e1: "trace w' = trace w @ EvPoll # e1" "list_all (\<lambda>ev. \<not> is_poll ev) e1"
    by auto
  from e1(2) have f1: "filter is_poll e1 = []"
    by (auto simp: list_all_iff filter_empty_conv)
  from Suc.IH [of w'] obtain e2 where
    e2: "trace (world_of (main_loop n w')) = trace w' @ e2" "filter is_poll e2 = replicate n EvPoll"
    by blast
  have "trace (world_of (main_loop (Suc n) w)) = trace w @ (EvPoll # e1 @ e2)"
    using w' e1(1) e2(1) by simp
  moreover have "filter is_poll (EvPoll # e1 @ e2) = replicate (Suc n) EvPoll"
    using f1 e2(2) by simp
  ultimately show ?case by blast
qed

lemma main_loop_after_fault:
  assumes "main_try w = Raise e wa"
  shows "\<exists>evs evs'. trace (world_of (main_loop (Suc (Suc n)) w)) =
           trace wa @ EvPrint (log_format ''ERROR'' (monotonic_ms (env wa) (ops wa))
                        (''Unexpected Error occured in main function: '' @ str_exn e))
             # evs @ EvPoll # evs'"
proof -
  let ?w1 = "log ERROR [''Unexpected Error occured in main function: '' @ str_exn e] wa"
  have t: "main_tick w = Return () ?w1" using assms by (simp add: main_tick_def)
  from log_ERROR_prints [of "''Unexpected Error occured in main function: '' @ str_exn e" wa]
  obtain e1 where e1: "trace ?w1 = trace wa @
      EvPrint (log_format ''ERROR'' (monotonic_ms (env wa) (ops wa))
        (''Unexpected Error occured in main function: '' @ str_exn e)) # e1"
    by blast
  obtain w2 where w2: "main_tick ?w1 = Return () w2"
    using main_tick_returns [of ?w1] by (cases "main_tick ?w1") simp_all
  from main_tick_events [of ?w1] w2 obtain e2 where e2: "trace w2 = trace ?w1 @ EvPoll # e2"
    by auto
  from main_loop_polls [of n w2] obtain e3 where
    e3: "trace (world_of (main_loop n w2)) = trace w2 @ e3"
    by blast
  have "trace (world_of (main_loop (Suc (Suc n)) w)) =
      trace wa @ EvPrint (log_format ''ERROR'' (monotonic_ms (env wa) (ops wa))
        (''Unexpected Error occured in main function: '' @ str_exn e)) # e1 @ EvPoll # (e2 @ e3)"
    using t w2 e1 e2 e3 by simp
  then show ?thesis by blast
qed

lemma sensor_fault_try:
  "main_try sensor_fault_world = Raise io_error (sensor_fault_world\<lparr>ops := 5, trace := [EvPoll]\<rparr>)"
  by (simp add: program_defs example_defs sensor_fault_world_def)

lemma sensor_fault_first_tick: "main_tick sensor_fault_world = Return () sensor_fault_after"
  by (simp add: program_defs example_defs sensor_fault_world_def sensor_fault_after_def str_eval
      path_defs level_distinct log_format_def)

lemma sensor_fault_second_tick:
  "emitted sensor_fault_after (world_of (main_tick sensor_fault_after)) =
     [EvPoll,
      EvOpen ''/sd/data.txt'',
      EvPrint (''[DEBUG] - [120017]: Appending '' @ [CHR 0x27]
               @ ''dps310 pressure=1013.25,temp=21.5 120011'' @ [CHR 0x27] @ '' to /sd/data.txt''),
      EvWrite ''/sd/data.txt'' (''dps310 pressure=1013.25,temp=21.5 120011'' @ CRLF),
      EvClose ''/sd/data.txt'',
      EvOpen ''/sd/data.txt'',
      EvPrint (''[DEBUG] - [120023]: Appending '' @ [CHR 0x27]
               @ ''bno08x accel_x=0.0,accel_y=0.0,accel_z=0.0 120019'' @ [CHR 0x27]
               @ '' to /sd/data.txt''),
      EvWrite ''/sd/data.txt'' (''bno08x accel_x=0.0,accel_y=0.0,accel_z=0.0 120019'' @ CRLF),
      EvClose ''/sd/data.txt'']"
  by (simp add: program_defs example_defs sensor_fault_world_def sensor_fault_after_def str_eval
      path_defs level_distinct log_format_def emitted_def)

section \<open>The claims\<close>

subsection \<open>The line-protocol encoder\<close>

text \<open>
  Claim C5. A DPS310 reading whose driver gives a pressure that prints as \<^verbatim>\<open>1013.25\<close> and
  a temperature that prints as \<^verbatim>\<open>21.5\<close>, with timestamp 120000, is encoded by
  \<^verbatim>\<open>to_influx_line\<close> as exactly \<^verbatim>\<open>dps310 pressure=1013.25,temp=21.5 120000\<close>: the
  measurement name of \<^verbatim>\<open>SensorType.get_name\<close>, the fields joined by a comma without
  spaces, the timestamp last, no newline. How a float prints is the interpreter's, so it
  enters as the environment's \<open>float_str\<close>.
\<close>

theorem to_influx_line_dps310_example:
  assumes "pressure (env w) (ops w) = Inr p"
    and "temperature (env w) (Suc (ops w)) = Inr t"
    and "float_str (env w) p = ''1013.25''"
    and "float_str (env w) t = ''21.5''"
  shows "to_influx_line \<lparr>sensor_type = DPS310, data = DPS310Data_get_data, timestamp = 120000\<rparr> w
           = Return ''dps310 pressure=1013.25,temp=21.5 120000'' (step (step w))"
  using assms
  by (simp add: to_influx_line_def SensorType_get_name_known DPS310Data_get_data_def
      step_def str_eval)

theorem to_influx_line_dps310_example_witness:
  "pressure (env example_world) (ops example_world) = Inr 1013.25
   \<and> temperature (env example_world) (Suc (ops example_world)) = Inr 21.5
   \<and> float_str (env example_world) 1013.25 = ''1013.25''
   \<and> float_str (env example_world) 21.5 = ''21.5''
   \<and> to_influx_line \<lparr>sensor_type = DPS310, data = DPS310Data_get_data, timestamp = 120000\<rparr>
         example_world
       = Return ''dps310 pressure=1013.25,temp=21.5 120000'' (step (step example_world))"
  using to_influx_line_dps310_example [of example_world "1013.25" "21.5"]
  by (simp add: example_world_def example_env_def example_float_str_def)

text \<open>
  Claim C7. When the field mapping that \<^verbatim>\<open>get_data\<close> returns is empty, \<^verbatim>\<open>to_influx_line\<close>
  still returns, and the line is the measurement name, two spaces, and the timestamp.
\<close>

theorem to_influx_line_empty_fields:
  assumes "SensorType_get_name (sensor_type self) w = (measurement, w1)"
    and "data self w1 = Return [] w2"
  shows "to_influx_line self w = Return (measurement @ ''  '' @ str_int (timestamp self)) w2"
  using assms by (simp add: to_influx_line_def)

theorem to_influx_line_empty_fields_witness:
  "SensorType_get_name (sensor_type \<lparr>sensor_type = DPS310, data = Return [], timestamp = 42\<rparr>)
       example_world = (''dps310'', example_world)
   \<and> data \<lparr>sensor_type = DPS310, data = Return [], timestamp = 42\<rparr> example_world
       = Return [] example_world
   \<and> to_influx_line \<lparr>sensor_type = DPS310, data = Return [], timestamp = 42\<rparr> example_world
       = Return ''dps310  42'' example_world"
  using to_influx_line_empty_fields
    [of "\<lparr>sensor_type = DPS310, data = Return [], timestamp = 42\<rparr>" example_world
        "''dps310''" example_world example_world]
  by (simp add: SensorType_get_name_known str_eval)

subsection \<open>The logger\<close>

text \<open>
  Claim C6. A call of \<^verbatim>\<open>log\<close> with a message that is not empty renders the line
  \<^verbatim>\<open>[LEVEL] - [timestamp]: text\<close> and sends it to the console sinks. At \<^verbatim>\<open>DEBUG\<close> that is
  all: no file event, the files unchanged. At \<^verbatim>\<open>INFO\<close> and \<^verbatim>\<open>WARN\<close> the run log, at
  \<^verbatim>\<open>ERROR\<close> the error log is opened for appending; when the open and the write do not
  fail, the events are open, write of the line and CRLF, close, and the file has grown by
  exactly that.
\<close>

theorem log_format_and_routing:
  assumes "message \<noteq> []"
    and "(level, name, path) \<in>
           {(INFO, ''INFO'', LOGPATH), (WARN, ''WARN'', LOGPATH), (ERROR, ''ERROR'', ERRPATH)}"
  shows "trace (log DEBUG message w) =
           trace w @ console (env w)
             (log_format ''DEBUG'' (monotonic_ms (env w) (ops w)) (concat message))
       \<and> files (log DEBUG message w) = files w
       \<and> (\<exists>evs. trace (log level message w) =
             trace w @ console (env w)
               (log_format name (monotonic_ms (env w) (ops w)) (concat message))
             @ EvOpen path # evs)
       \<and> (open_fault (env w) (Suc (ops w)) path = None
            \<and> write_fault (env w) (Suc (Suc (ops w))) path = None \<longrightarrow>
          trace (log level message w) =
             trace w @ console (env w)
               (log_format name (monotonic_ms (env w) (ops w)) (concat message))
             @ [EvOpen path,
                EvWrite path
                  (log_format name (monotonic_ms (env w) (ops w)) (concat message) @ CRLF),
                EvClose path]
          \<and> files (log level message w) =
             appended path
               (log_format name (monotonic_ms (env w) (ops w)) (concat message) @ CRLF)
               (files w))"
proof -
  let ?t = "monotonic_ms (env w) (ops w)"
  have dbg: "log DEBUG message w = log_sinks DEBUG (log_format ''DEBUG'' ?t (concat message)) (step w)"
    using assms(1) by (rule log_known)
  have lvl: "log level message w =
      log_try path (log_format name ?t (concat message))
        ((step w)\<lparr>trace := trace w @ console (env w) (log_format name ?t (concat message))\<rparr>)"
  proof -
    from assms(2) consider "level = INFO \<and> name = ''INFO'' \<and> path = LOGPATH"
      | "level = WARN \<and> name = ''WARN'' \<and> path = LOGPATH"
      | "level = ERROR \<and> name = ''ERROR'' \<and> path = ERRPATH"
      by auto
    then show ?thesis
      by cases (simp_all add: log_known [OF assms(1)] log_sinks_file level_distinct step_def)
  qed
  have a: "trace (log DEBUG message w) = trace w @ console (env w) (log_format ''DEBUG'' ?t (concat message))"
    and b: "files (log DEBUG message w) = files w"
    by (simp_all add: dbg log_sinks_DEBUG step_def)
  have c: "\<exists>evs. trace (log level message w) =
             trace w @ console (env w) (log_format name ?t (concat message)) @ EvOpen path # evs"
    using log_try_attempt [of path "log_format name ?t (concat message)"
        "(step w)\<lparr>trace := trace w @ console (env w) (log_format name ?t (concat message))\<rparr>"]
    by (simp add: lvl)
  have d: "open_fault (env w) (Suc (ops w)) path = None
            \<and> write_fault (env w) (Suc (Suc (ops w))) path = None \<longrightarrow>
          trace (log level message w) =
             trace w @ console (env w) (log_format name ?t (concat message))
             @ [EvOpen path, EvWrite path (log_format name ?t (concat message) @ CRLF), EvClose path]
          \<and> files (log level message w) =
             appended path (log_format name ?t (concat message) @ CRLF) (files w)"
    by (simp add: lvl log_try_ok step_def)
  from a b c d show ?thesis by blast
qed

theorem log_format_and_routing_witness:
  "[''Access point created.''] \<noteq> []
   \<and> (INFO, ''INFO'', LOGPATH) \<in>
        {(INFO, ''INFO'', LOGPATH), (WARN, ''WARN'', LOGPATH), (ERROR, ''ERROR'', ERRPATH)}
   \<and> trace (log DEBUG [''Access point created.''] example_world) =
        [EvPrint ''[DEBUG] - [120000]: Access point created.'']
   \<and> files (log DEBUG [''Access point created.''] example_world) = Map.empty
   \<and> open_fault (env example_world) (Suc (ops example_world)) LOGPATH = None
   \<and> write_fault (env example_world) (Suc (Suc (ops example_world))) LOGPATH = None
   \<and> trace (log INFO [''Access point created.''] example_world) =
        [EvPrint ''[INFO] - [120000]: Access point created.'',
         EvOpen ''/sd/run.log'',
         EvWrite ''/sd/run.log'' (''[INFO] - [120000]: Access point created.'' @ CRLF),
         EvClose ''/sd/run.log'']
   \<and> files (log INFO [''Access point created.''] example_world) ''/sd/run.log'' =
        Some (''[INFO] - [120000]: Access point created.'' @ CRLF)"
  using log_format_and_routing [of "[''Access point created.'']" INFO "''INFO''" LOGPATH example_world]
  by (simp add: example_world_def example_env_def console_def log_format_def str_eval
      appended_def path_defs)

subsection \<open>The sensor classes\<close>

text \<open>
  Claim C2, as amended. \<^verbatim>\<open>Bno08xData.get_data\<close> returns the mapping of three zeros and
  logs at \<^verbatim>\<open>ERROR\<close> when the driver's \<^verbatim>\<open>acceleration\<close> is \<^verbatim>\<open>None\<close>. An exception of the
  driver is caught by neither class: it leaves \<^verbatim>\<open>get_data\<close>, from the acceleration of
  the BNO08x as from the pressure or the temperature of the DPS310, for which there is no
  fallback mapping.
\<close>

theorem get_data_fallback_and_faults:
  "(acceleration (env w) (ops w) = Inr None \<longrightarrow>
      Bno08xData_get_data w =
        Return [(''accel_x'', PyInt 0), (''accel_y'', PyInt 0), (''accel_z'', PyInt 0)]
          (log ERROR [''Could not get acceleration data from bno08x.''] (step w))
      \<and> (\<exists>evs. trace (world_of (Bno08xData_get_data w)) =
            trace w @ EvPrint (log_format ''ERROR'' (monotonic_ms (env w) (Suc (ops w)))
                         ''Could not get acceleration data from bno08x.'') # evs))
   \<and> (acceleration (env w) (ops w) = Inl e \<longrightarrow> Bno08xData_get_data w = Raise e (step w))
   \<and> (pressure (env w) (ops w) = Inl e \<longrightarrow> DPS310Data_get_data w = Raise e (step w))
   \<and> (pressure (env w) (ops w) = Inr p \<and> temperature (env w) (Suc (ops w)) = Inl e \<longrightarrow>
        DPS310Data_get_data w = Raise e (step (step w)))"
  using log_ERROR_prints [of "''Could not get acceleration data from bno08x.''" "step w"]
  by (simp add: Bno08xData_get_data_def DPS310Data_get_data_def step_def)

theorem get_data_fallback_and_faults_witness:
  "acceleration (env (example_world\<lparr>env := example_env\<lparr>acceleration := (\<lambda>k. Inr None)\<rparr>\<rparr>)) 0
     = Inr None
   \<and> trace (world_of (Bno08xData_get_data
        (example_world\<lparr>env := example_env\<lparr>acceleration := (\<lambda>k. Inr None)\<rparr>\<rparr>))) =
       [EvPrint ''[ERROR] - [120001]: Could not get acceleration data from bno08x.'',
        EvOpen ''/sd/error.log'',
        EvWrite ''/sd/error.log''
          (''[ERROR] - [120001]: Could not get acceleration data from bno08x.'' @ CRLF),
        EvClose ''/sd/error.log'']
   \<and> pressure (env dps_fault_world) (ops dps_fault_world) = Inl io_error
   \<and> DPS310Data_get_data dps_fault_world = Raise io_error (step dps_fault_world)"
  using get_data_fallback_and_faults
      [of "example_world\<lparr>env := example_env\<lparr>acceleration := (\<lambda>k. Inr None)\<rparr>\<rparr>" io_error]
    get_data_fallback_and_faults [of dps_fault_world io_error]
  by (simp add: dps_fault_world_def example_world_def example_env_def step_def
      log_known log_sinks_file log_try_ok level_distinct console_def log_format_def str_eval
      path_defs)

text \<open>
  The claim as stated fails: with the pressure read of the DPS310 raising an I/O error,
  \<^verbatim>\<open>get_data\<close> raises it.
\<close>

theorem get_data_counterexample:
  "DPS310Data_get_data dps_fault_world = Raise (OSError ''[Errno 5] Input/output error'')
     (dps_fault_world\<lparr>ops := 1\<rparr>)"
  by (simp add: DPS310Data_get_data_def dps_fault_world_def example_world_def example_env_def
      step_def io_error_def)

subsection \<open>The append path\<close>

text \<open>
  Claim C4, as amended. \<^verbatim>\<open>data2datafile\<close> catches nothing. When opening the data file
  fails, or the write fails, the exception leaves \<^verbatim>\<open>data2datafile\<close> (the \<^verbatim>\<open>with\<close>
  statement only closes the file), leaves \<^verbatim>\<open>_handle_sensor\<close>, and leaves \<^verbatim>\<open>loop\<close>, so
  that after a failed append of the DPS310 line the BNO08x is not handled in that tick;
  the handler in \<^verbatim>\<open>main\<close> is where it is caught and logged at \<^verbatim>\<open>ERROR\<close>.
\<close>

theorem data2datafile_failure_propagates:
  "(to_influx_line sensor_data w = Return influx_line wa
      \<and> open_fault (env wa) (ops wa) DATAPATH = Some e \<longrightarrow>
      data2datafile sensor_data w = Raise e (step (emit (EvOpen DATAPATH) wa)))
   \<and> (to_influx_line sensor_data w = Return influx_line wa
      \<and> open_append DATAPATH wa = Return () wo
      \<and> to_influx_line sensor_data wo = Return line2 wc
      \<and> file_write DATAPATH (influx_line @ CRLF)
           (log DEBUG [''Appending '' @ [CHR 0x27] @ line2 @ [CHR 0x27] @ '' to '' @ DATAPATH] wc)
         = Raise e wd \<longrightarrow>
      data2datafile sensor_data w = Raise e (file_close DATAPATH wd))
   \<and> (data2datafile
         \<lparr>sensor_type = st, data = d, timestamp = monotonic_ms (env w) (ops w)\<rparr> (step w)
        = Raise e wb \<longrightarrow>
      handle_sensor st d w = Raise e wb)
   \<and> (handle_sd w = Return () wa \<and> handle_dps310 wa = Raise e wb \<longrightarrow> loop w = Raise e wb)
   \<and> (server_poll w = Return () wa \<and> loop wa = Raise e wb \<longrightarrow>
      main_tick w =
        Return () (log ERROR [''Unexpected Error occured in main function: '' @ str_exn e] wb))"
proof -
  have "to_influx_line sensor_data w = Return influx_line wa \<Longrightarrow> influx_line \<noteq> []"
    by (auto simp: to_influx_line_def Let_def split: prod.splits result.splits)
  then have "(to_influx_line sensor_data w = Return influx_line wa
      \<and> open_fault (env wa) (ops wa) DATAPATH = Some e \<longrightarrow>
      data2datafile sensor_data w = Raise e (step (emit (EvOpen DATAPATH) wa)))"
    and "(to_influx_line sensor_data w = Return influx_line wa
      \<and> open_append DATAPATH wa = Return () wo
      \<and> to_influx_line sensor_data wo = Return line2 wc
      \<and> file_write DATAPATH (influx_line @ CRLF)
           (log DEBUG [''Appending '' @ [CHR 0x27] @ line2 @ [CHR 0x27] @ '' to '' @ DATAPATH] wc)
         = Raise e wd \<longrightarrow>
      data2datafile sensor_data w = Raise e (file_close DATAPATH wd))"
    by (simp_all add: data2datafile_def open_append_def Let_def)
  then show ?thesis
    by (simp add: handle_sensor_def time_monotonic_ms_def loop_def main_tick_def main_try_def)
qed

theorem data2datafile_failure_propagates_witness:
  "to_influx_line dps310_reading (step open_fault_world) =
     Return ''dps310 pressure=1013.25,temp=21.5 120000'' (step (step (step open_fault_world)))
   \<and> open_fault (env (step (step (step open_fault_world))))
        (ops (step (step (step open_fault_world)))) DATAPATH = Some io_error
   \<and> data2datafile dps310_reading (step open_fault_world) =
       Raise io_error (step (emit (EvOpen DATAPATH) (step (step (step open_fault_world)))))
   \<and> handle_sensor DPS310 DPS310Data_get_data open_fault_world =
       Raise io_error (step (emit (EvOpen DATAPATH) (step (step (step open_fault_world)))))"
proof -
  have enc: "to_influx_line dps310_reading (step open_fault_world) =
     Return ''dps310 pressure=1013.25,temp=21.5 120000'' (step (step (step open_fault_world)))"
    by (rule dps310_encoding_example)
  have flt: "open_fault (env (step (step (step open_fault_world))))
        (ops (step (step (step open_fault_world)))) DATAPATH = Some io_error"
    by (simp add: step_def open_fault_world_def example_world_def)
  have d2d: "data2datafile dps310_reading (step open_fault_world) =
       Raise io_error (step (emit (EvOpen DATAPATH) (step (step (step open_fault_world)))))"
    using data2datafile_failure_propagates
      [where sensor_data = dps310_reading and w = "step open_fault_world"
         and influx_line = "''dps310 pressure=1013.25,temp=21.5 120000''"
         and wa = "step (step (step open_fault_world))" and e = io_error]
      enc flt by simp
  have ts: "monotonic_ms (env open_fault_world) (ops open_fault_world) = 120000"
    by (simp add: open_fault_world_def example_world_def example_env_def)
  have "handle_sensor DPS310 DPS310Data_get_data open_fault_world =
       Raise io_error (step (emit (EvOpen DATAPATH) (step (step (step open_fault_world)))))"
    using data2datafile_failure_propagates
      [where st = DPS310 and d = DPS310Data_get_data and w = open_fault_world and e = io_error
         and wb = "step (emit (EvOpen DATAPATH) (step (step (step open_fault_world))))"]
      d2d ts by (simp add: dps310_reading_def)
  with enc flt d2d show ?thesis by simp
qed

text \<open>
  The claim as stated fails: with the open of the data file raising an I/O error,
  \<^verbatim>\<open>data2datafile\<close> raises it after the one attempt to open, and so does
  \<^verbatim>\<open>_handle_sensor\<close>.
\<close>

theorem data2datafile_counterexample:
  "raised (data2datafile dps310_reading (step open_fault_world)) =
     Some (OSError ''[Errno 5] Input/output error'')
   \<and> trace (world_of (data2datafile dps310_reading (step open_fault_world))) =
     [EvOpen ''/sd/data.txt'']
   \<and> raised (handle_sensor DPS310 DPS310Data_get_data open_fault_world) =
     Some (OSError ''[Errno 5] Input/output error'')"
  by (simp add: program_defs example_defs str_eval path_defs level_distinct)

text \<open>
  Claim C10, as amended. \<^verbatim>\<open>to_influx_line\<close> has no path that returns \<^verbatim>\<open>None\<close>: whenever it
  returns, it returns a string that is not empty, so the guard of \<^verbatim>\<open>data2datafile\<close> never
  skips the append. For the two sensor classes of the program, a call of
  \<^verbatim>\<open>data2datafile\<close> whose encoding returns opens the data file exactly once, attempts at
  most one write, and when it returns it has written exactly one line, the encoded line
  followed by CRLF. When reading the sensor raises, \<^verbatim>\<open>to_influx_line\<close> does not
  return: \<^verbatim>\<open>data2datafile\<close> raises the same exception there and then, before any open.
\<close>

theorem data2datafile_one_append:
  "(to_influx_line sd w = Return s wa \<longrightarrow> s \<noteq> [])
   \<and> (to_influx_line sd w = Raise e wr \<longrightarrow> data2datafile sd w = Raise e wr)
   \<and> ((data sd = DPS310Data_get_data \<or> data sd = Bno08xData_get_data)
        \<and> to_influx_line sd w = Return s wa \<longrightarrow>
      filter data_open (trace (world_of (data2datafile sd w))) =
        filter data_open (trace w) @ [EvOpen DATAPATH]
      \<and> (filter data_write (trace (world_of (data2datafile sd w))) = filter data_write (trace w)
          \<or> filter data_write (trace (world_of (data2datafile sd w))) =
               filter data_write (trace w) @ [EvWrite DATAPATH (s @ CRLF)])
      \<and> (returns (data2datafile sd w) \<longrightarrow>
           filter data_write (trace (world_of (data2datafile sd w))) =
             filter data_write (trace w) @ [EvWrite DATAPATH (s @ CRLF)]))"
proof -
  have a: "to_influx_line sd w = Return s wa \<longrightarrow> s \<noteq> []"
    by (auto dest: to_influx_line_nonempty)
  have b: "filter data_open (trace (world_of (data2datafile sd w))) =
        filter data_open (trace w) @ [EvOpen DATAPATH]
      \<and> (filter data_write (trace (world_of (data2datafile sd w))) = filter data_write (trace w)
          \<or> filter data_write (trace (world_of (data2datafile sd w))) =
               filter data_write (trace w) @ [EvWrite DATAPATH (s @ CRLF)])
      \<and> (returns (data2datafile sd w) \<longrightarrow>
           filter data_write (trace (world_of (data2datafile sd w))) =
             filter data_write (trace w) @ [EvWrite DATAPATH (s @ CRLF)])"
    if sens: "data sd = DPS310Data_get_data \<or> data sd = Bno08xData_get_data"
      and enc: "to_influx_line sd w = Return s wa"
  proof -
    have ext: "\<And>w. extends log_event w (world_of (data sd w))"
      using sens DPS310Data_get_data_extends Bno08xData_get_data_extends by auto
    have "extends log_event w (world_of (to_influx_line sd w))"
      using ext by (rule to_influx_line_extends)
    then have pre: "extends log_event w wa" using enc by simp
    have f1: "filter data_open (trace wa) = filter data_open (trace w)"
      using pre by (rule extends_filter) (rule log_event_cases)
    have f2: "filter data_write (trace wa) = filter data_write (trace w)"
      using pre by (rule extends_filter) (rule log_event_cases)
    from data2datafile_events [OF ext enc] f1 f2 show ?thesis
      by auto
  qed
  have c: "to_influx_line sd w = Raise e wr \<longrightarrow> data2datafile sd w = Raise e wr"
    by (simp add: data2datafile_def)
  from a b c show ?thesis by blast
qed

theorem data2datafile_one_append_witness:
  "to_influx_line dps310_reading example_world =
     Return ''dps310 pressure=1013.25,temp=21.5 120000'' (step (step example_world))
   \<and> data dps310_reading = DPS310Data_get_data
   \<and> returns (data2datafile dps310_reading example_world)
   \<and> filter data_open (trace (world_of (data2datafile dps310_reading example_world))) =
       [EvOpen DATAPATH]
   \<and> filter data_write (trace (world_of (data2datafile dps310_reading example_world))) =
       [EvWrite DATAPATH (''dps310 pressure=1013.25,temp=21.5 120000'' @ CRLF)]"
proof -
  have enc: "to_influx_line dps310_reading example_world =
     Return ''dps310 pressure=1013.25,temp=21.5 120000'' (step (step example_world))"
    by (simp add: program_defs example_defs str_eval)
  have sens: "data dps310_reading = DPS310Data_get_data"
    by (simp add: dps310_reading_def)
  have ret: "returns (data2datafile dps310_reading example_world)"
    by (simp add: program_defs example_defs str_eval path_defs level_distinct)
  have tr: "trace example_world = []"
    by (simp add: example_world_def)
  from data2datafile_one_append
    [where sd = dps310_reading and w = example_world
       and s = "''dps310 pressure=1013.25,temp=21.5 120000''"
       and wa = "step (step example_world)"]
    enc sens ret tr
  show ?thesis by simp
qed

text \<open>
  The claim as stated fails: with the pressure read of the DPS310 raising an I/O error, a
  call of \<^verbatim>\<open>data2datafile\<close> raises and emits nothing, so no append is attempted.
\<close>

theorem data2datafile_sensor_fault_counterexample:
  "raised (data2datafile dps310_reading dps_fault_world) =
     Some (OSError ''[Errno 5] Input/output error'')
   \<and> trace (world_of (data2datafile dps310_reading dps_fault_world)) = []"
  by (simp add: program_defs example_defs)

subsection \<open>Deletion\<close>







subsection \<open>Card presence\<close>

text \<open>
  Claim C3, as amended. In a tick in which the card-presence input reads deasserted,
  \<^verbatim>\<open>handle_sd\<close> logs the line \<^verbatim>\<open>No MicroSD card inserted.\<close> at \<^verbatim>\<open>ERROR\<close>, and this very
  call of \<^verbatim>\<open>log\<close> tries to open the error log for appending. Nothing depends on the
  input: when from then on the delete input reads low and the DPS310 answers, the same
  tick goes on to open the data file. Nothing about the card is kept between ticks
  either: in any world, whatever the platform did before, if from then on the DPS310
  answers and no open or write fails, \<^verbatim>\<open>handle_dps310\<close> returns and appends exactly one
  line and CRLF to the data file. The hypotheses speak of the requests from the current
  one on only, so they hold after ticks in which the card was out and the opens failed.
\<close>

theorem card_absent_tick:
  "(\<not> cd_pin (env w) (ops w) \<longrightarrow>
      (\<exists>evs. emitted w (world_of (handle_sd w)) =
         console (env w)
           (log_format ''ERROR'' (monotonic_ms (env w) (Suc (ops w))) ''No MicroSD card inserted.'')
         @ EvOpen ERRPATH # evs))
   \<and> (\<not> cd_pin (env w) (ops w) \<and> (\<forall>k\<ge>ops w. \<not> del_pin (env w) k)
        \<and> dps310_ok (env w) (ops w) \<longrightarrow>
      EvOpen DATAPATH \<in> set (emitted w (world_of (loop w))))
   \<and> (dps310_ok (env w') (ops w') \<and> storage_ok (env w') (ops w') \<longrightarrow>
      (\<exists>s. returns (handle_dps310 w')
         \<and> filter data_write (emitted w' (world_of (handle_dps310 w'))) =
             [EvWrite DATAPATH (s @ CRLF)]
         \<and> files (world_of (handle_dps310 w')) = appended DATAPATH (s @ CRLF) (files w')))"
  using handle_sd_card_absent [of w] loop_attempts_append [of w] handle_dps310_appends [of w']
  by blast

theorem card_absent_tick_witness:
  "\<not> cd_pin (env card_back_world) (ops card_back_world)
   \<and> (\<forall>k. \<not> del_pin (env card_back_world) k)
   \<and> dps310_ok (env card_back_world) (ops card_back_world)
   \<and> (\<exists>evs. emitted card_back_world (world_of (handle_sd card_back_world)) =
         EvPrint ''[ERROR] - [120001]: No MicroSD card inserted.'' # EvOpen ERRPATH # evs)
   \<and> EvOpen DATAPATH \<in> set (emitted card_back_world (world_of (loop card_back_world)))
   \<and> main_tick card_back_world = Return () card_back_after
   \<and> \<not> storage_ok (env card_back_after) 0
   \<and> dps310_ok (env card_back_after) (ops card_back_after)
   \<and> storage_ok (env card_back_after) (ops card_back_after)
   \<and> (\<exists>s. returns (handle_dps310 card_back_after)
         \<and> filter data_write (emitted card_back_after (world_of (handle_dps310 card_back_after))) =
             [EvWrite DATAPATH (s @ CRLF)]
         \<and> files (world_of (handle_dps310 card_back_after)) =
             appended DATAPATH (s @ CRLF) (files card_back_after))
   \<and> files (world_of (main_tick card_back_after)) DATAPATH =
       Some (''dps310 pressure=1013.25,temp=21.5 120014'' @ CRLF
             @ ''bno08x accel_x=0.0,accel_y=0.0,accel_z=0.0 120022'' @ CRLF)"
proof -
  have a: "\<not> cd_pin (env card_back_world) (ops card_back_world)"
    and b: "\<forall>k. \<not> del_pin (env card_back_world) k"
    and c: "dps310_ok (env card_back_world) (ops card_back_world)"
    and d: "dps310_ok (env card_back_after) (ops card_back_after)"
    and e: "storage_ok (env card_back_after) (ops card_back_after)"
    by (simp_all add: card_back_after_def card_back_world_def example_world_def example_env_def
        dps310_ok_def storage_ok_def)
  have n: "\<not> storage_ok (env card_back_after) 0"
    by (auto simp: card_back_after_def card_back_world_def example_world_def example_env_def
        storage_ok_def intro: exI [of _ 0])
  have f: "console (env card_back_world)
      (log_format ''ERROR'' (monotonic_ms (env card_back_world) (Suc (ops card_back_world)))
         ''No MicroSD card inserted.'') =
      [EvPrint ''[ERROR] - [120001]: No MicroSD card inserted.'']"
    by (simp add: card_back_world_def example_world_def example_env_def console_def log_format_def
        str_eval)
  from card_absent_tick [of card_back_world card_back_after] a b c d e f n
    card_back_first_tick card_back_second_tick
  show ?thesis by simp
qed

text \<open>
  The claim as stated fails: with the card pulled out, one tick tries to open the error
  log, the data file and the error log again, and logs two lines at \<^verbatim>\<open>ERROR\<close>: the
  failed open of the data file ends the tick in the handler of \<^verbatim>\<open>main\<close>, before the
  BNO08x is read.
\<close>

theorem card_absent_counterexample:
  "trace (world_of (main_tick no_card_world)) =
     [EvPoll,
      EvPrint ''[ERROR] - [120002]: No MicroSD card inserted.'',
      EvOpen ''/sd/error.log'',
      EvPrint ''Could not write to /sd/error.log:  [Errno 5] Input/output error'',
      EvOpen ''/sd/data.txt'',
      EvPrint ''[ERROR] - [120009]: Unexpected Error occured in main function: [Errno 5] Input/output error'',
      EvOpen ''/sd/error.log'',
      EvPrint ''Could not write to /sd/error.log:  [Errno 5] Input/output error'']"
  by (simp add: program_defs example_defs no_card_world_def str_eval path_defs level_distinct
      log_format_def)

subsection \<open>The runtime loop\<close>

text \<open>
  Claim C1. When the body of a tick (\<^verbatim>\<open>server.poll()\<close> and then \<^verbatim>\<open>loop\<close>, with the card
  handling, the sensor reads, the encoding and the appends inside) raises an exception,
  the handler of the \<^verbatim>\<open>while True\<close> loop catches it and logs a line at \<^verbatim>\<open>ERROR\<close>, and
  the loop runs its next tick: in the trace of the loop, the line of the handler is
  followed by the next request to the server. Whatever fails, a tick never raises and
  neither does any number of ticks, and \<open>n\<close> iterations of the loop make exactly \<open>n\<close>
  requests to the server, one at the start of each tick: no fault inside a tick ends the
  program or keeps a later tick from running.
\<close>

theorem main_tick_fault_isolation:
  "(main_try w = Raise e wa \<longrightarrow>
      main_tick w =
        Return () (log ERROR [''Unexpected Error occured in main function: '' @ str_exn e] wa)
      \<and> (\<exists>evs. trace (world_of (main_tick w)) =
            trace wa @ EvPrint (log_format ''ERROR'' (monotonic_ms (env wa) (ops wa))
                         (''Unexpected Error occured in main function: '' @ str_exn e)) # evs)
      \<and> main_loop (Suc n) w =
          main_loop n (log ERROR [''Unexpected Error occured in main function: '' @ str_exn e] wa)
      \<and> (\<exists>evs evs'. trace (world_of (main_loop (Suc (Suc n)) w)) =
            trace wa @ EvPrint (log_format ''ERROR'' (monotonic_ms (env wa) (ops wa))
                         (''Unexpected Error occured in main function: '' @ str_exn e))
              # evs @ EvPoll # evs'))
   \<and> returns (main_tick w)
   \<and> returns (main_loop n w)
   \<and> filter is_poll (emitted w (world_of (main_loop n w))) = replicate n EvPoll"
proof -
  from main_loop_polls [of n w] obtain evs where
    "trace (world_of (main_loop n w)) = trace w @ evs" "filter is_poll evs = replicate n EvPoll"
    by blast
  then have p: "filter is_poll (emitted w (world_of (main_loop n w))) = replicate n EvPoll"
    by (simp add: emitted_def)
  show ?thesis
    using log_ERROR_prints [of "''Unexpected Error occured in main function: '' @ str_exn e" wa]
      main_tick_returns [of w] main_loop_returns [of n w] main_loop_after_fault [of w e wa n] p
    by (simp add: main_tick_def)
qed

theorem main_tick_fault_isolation_witness:
  "main_try sensor_fault_world =
     Raise io_error (sensor_fault_world\<lparr>ops := 5, trace := [EvPoll]\<rparr>)
   \<and> main_tick sensor_fault_world = Return () sensor_fault_after
   \<and> main_loop 2 sensor_fault_world = main_tick sensor_fault_after
   \<and> returns (main_loop 2 sensor_fault_world)
   \<and> filter is_poll (emitted sensor_fault_world (world_of (main_loop 2 sensor_fault_world))) =
       [EvPoll, EvPoll]
   \<and> emitted sensor_fault_after (world_of (main_loop 2 sensor_fault_world)) =
       [EvPoll,
        EvOpen ''/sd/data.txt'',
        EvPrint (''[DEBUG] - [120017]: Appending '' @ [CHR 0x27]
                 @ ''dps310 pressure=1013.25,temp=21.5 120011'' @ [CHR 0x27] @ '' to /sd/data.txt''),
        EvWrite ''/sd/data.txt'' (''dps310 pressure=1013.25,temp=21.5 120011'' @ CRLF),
        EvClose ''/sd/data.txt'',
        EvOpen ''/sd/data.txt'',
        EvPrint (''[DEBUG] - [120023]: Appending '' @ [CHR 0x27]
                 @ ''bno08x accel_x=0.0,accel_y=0.0,accel_z=0.0 120019'' @ [CHR 0x27]
                 @ '' to /sd/data.txt''),
        EvWrite ''/sd/data.txt'' (''bno08x accel_x=0.0,accel_y=0.0,accel_z=0.0 120019'' @ CRLF),
        EvClose ''/sd/data.txt'']"
proof -
  note inst = main_tick_fault_isolation
    [where w = sensor_fault_world and e = io_error
       and wa = "sensor_fault_world\<lparr>ops := 5, trace := [EvPoll]\<rparr>"]
  have l2: "main_loop 2 sensor_fault_world = main_tick sensor_fault_after"
    using sensor_fault_first_tick
    by (cases "main_tick sensor_fault_after") (simp_all add: numeral_2_eq_2)
  from inst [of 2] have r: "returns (main_loop 2 sensor_fault_world)"
    and p: "filter is_poll (emitted sensor_fault_world (world_of (main_loop 2 sensor_fault_world)))
            = [EvPoll, EvPoll]"
    by (simp_all add: numeral_2_eq_2)
  from sensor_fault_try sensor_fault_first_tick l2 r p sensor_fault_second_tick
  show ?thesis by simp
qed

end
